theory Spec2Isabelle
  imports Main "HOL-Library.Sublist" "HOL-Library.AList" "HOL-Library.Multiset"
begin

section \<open>The checkpoint converter \<open>hf_t5-v1_1_to_nemo.py\<close>\<close>

text \<open>
  The script reads a Huggingface T5 v1.1 state dict (an ordered dictionary from
  parameter names to tensors), renames and fuses its entries into the NeMo-Megatron
  naming scheme, and translates a few hyperparameters. The embedding below follows
  \<open>convert_weights\<close> and the activation lookup of \<open>package_into_nemo_file\<close>.
  Keys are ASCII strings; exceptions are values of type \<open>error\<close>.
\<close>

subsection \<open>Exceptions\<close>

datatype error =
    ValueError string
  | KeyError string
  | IndexError string
  | RuntimeError string

text \<open>The text an exception was raised with.\<close>

fun message :: "error \<Rightarrow> string" where
  "message (ValueError m) = m"
| "message (KeyError m) = m"
| "message (IndexError m) = m"
| "message (RuntimeError m) = m"

subsection \<open>Python string operations\<close>

text \<open>\<open>sub in s\<close>: \<open>sub\<close> occurs in \<open>s\<close> as a contiguous run.\<close>

definition py_in :: "string \<Rightarrow> string \<Rightarrow> bool" where
  "py_in sub s = sublist sub s"

text \<open>\<open>s.startswith(p)\<close>.\<close>

definition startswith :: "string \<Rightarrow> string \<Rightarrow> bool" where
  "startswith s p = prefix p s"

text \<open>\<open>s.split(sep)\<close> for a one-character separator: never the empty list.\<close>

fun py_split :: "char \<Rightarrow> string \<Rightarrow> string list" where
  "py_split sep [] = [[]]"
| "py_split sep (c # cs) =
     (if c = sep then [] # py_split sep cs
      else (case py_split sep cs of
              [] \<Rightarrow> [[c]]
            | w # ws \<Rightarrow> (c # w) # ws))"

text \<open>\<open>xs[i]\<close> for a literal index \<open>i \<ge> 0\<close>: out of range raises IndexError.\<close>

definition getitem_list :: "'b list \<Rightarrow> nat \<Rightarrow> error + 'b" where
  "getitem_list xs i =
     (if i < length xs then Inr (xs ! i) else Inl (IndexError ''list index out of range''))"

text \<open>
  \<open>s.replace(old, new)\<close>: every occurrence of \<open>old\<close>, found left to right without
  overlap, becomes \<open>new\<close>. With an empty \<open>old\<close> Python puts \<open>new\<close> around every
  character.
\<close>

function py_replace :: "string \<Rightarrow> string \<Rightarrow> string \<Rightarrow> string" where
  "py_replace old new s =
     (if old = [] then new @ concat (map (\<lambda>c. c # new) s)
      else if prefix old s then new @ py_replace old new (drop (length old) s)
      else (case s of [] \<Rightarrow> [] | c # cs \<Rightarrow> c # py_replace old new cs))"
  by pat_completeness auto
termination
  by (relation "measure (\<lambda>(old, new, s). length s)") (auto simp: prefix_def)

declare py_replace.simps [simp del]

subsection \<open>Python integers: \<open>int(s)\<close> and \<open>str(n)\<close>\<close>

definition is_digit :: "char \<Rightarrow> bool" where
  "is_digit c = (c \<in> set ''0123456789'')"

text \<open>The value of a digit is its position in \<open>0123456789\<close>, and back.\<close>

definition digit_val :: "char \<Rightarrow> nat" where
  "digit_val c = length (takeWhile (\<lambda>d. d \<noteq> c) ''0123456789'')"

definition digit_char :: "nat \<Rightarrow> char" where
  "digit_char d = ''0123456789'' ! d"

text \<open>ASCII white space, which \<open>int\<close> strips on both sides.\<close>

definition is_space :: "char \<Rightarrow> bool" where
  "is_space c =
     (c \<in> {CHR 0x09, CHR 0x0A, CHR 0x0B, CHR 0x0C, CHR 0x0D,
            CHR 0x1C, CHR 0x1D, CHR 0x1E, CHR 0x1F, CHR 0x20})"

definition py_strip :: "string \<Rightarrow> string" where
  "py_strip s = rev (dropWhile is_space (rev (dropWhile is_space s)))"

text \<open>
  The digits of an integer literal: a digit first and last, and underscores only one at a
  time between digits.
\<close>

fun digit_run :: "string \<Rightarrow> bool" where
  "digit_run [] = False"
| "digit_run [c] = is_digit c"
| "digit_run (c # d # r) =
     (is_digit c \<and> (if d = CHR ''_'' then digit_run r else digit_run (d # r)))"

definition digits_value :: "string \<Rightarrow> nat" where
  "digits_value s = foldl (\<lambda>a c. 10 * a + digit_val c) 0 (filter is_digit s)"

text \<open>The \<open>repr\<close> of a string, for keys without quotes, backslashes or control characters.\<close>

definition py_repr :: "string \<Rightarrow> string" where
  "py_repr s = CHR 0x27 # s @ [CHR 0x27]"

definition py_int :: "string \<Rightarrow> error + int" where
  "py_int s =
     (let t = py_strip s;
          neg = (t \<noteq> [] \<and> hd t = CHR ''-'');
          u = (if t \<noteq> [] \<and> (hd t = CHR ''-'' \<or> hd t = CHR ''+'') then tl t else t)
      in if digit_run u
         then Inr (if neg then - int (digits_value u) else int (digits_value u))
         else Inl (ValueError (''invalid literal for int() with base 10: '' @ py_repr s)))"

fun dec_nat :: "nat \<Rightarrow> string" where
  "dec_nat n =
     (if n < 10 then [digit_char n] else dec_nat (n div 10) @ [digit_char (n mod 10)])"

declare dec_nat.simps [simp del]

text \<open>\<open>str(n)\<close>, which is what an f-string's \<open>{n}\<close> inserts.\<close>

definition py_str :: "int \<Rightarrow> string" where
  "py_str i = (if i < 0 then CHR ''-'' # dec_nat (nat (- i)) else dec_nat (nat i))"

subsection \<open>Tensors and \<open>torch.cat\<close>\<close>

text \<open>
  A tensor is its shape and its elements in row-major order. Concatenating contiguous
  tensors along dimension 0 appends their elements.
\<close>

datatype 'a tensor = Tensor (shape: "nat list") (elems: "'a list")

definition wf_tensor :: "'a tensor \<Rightarrow> bool" where
  "wf_tensor t = (length (elems t) = prod_list (shape t))"

text \<open>
  \<open>torch.cat(ts, dim=0)\<close> for a non-empty list: a zero-dimensional tensor cannot be
  concatenated, one-dimensional empty tensors of shape \<open>(0,)\<close> are skipped, and the others
  must agree in every dimension but the first.
\<close>

definition torch_cat :: "'a tensor list \<Rightarrow> error + 'a tensor" where
  "torch_cat ts =
     (if \<exists>t \<in> set ts. shape t = []
      then Inl (RuntimeError ''zero-dimensional tensor cannot be concatenated'')
      else (case filter (\<lambda>t. shape t \<noteq> [0]) ts of
              [] \<Rightarrow> Inr (Tensor [0] [])
            | u # us \<Rightarrow>
                if \<forall>t \<in> set us. tl (shape t) = tl (shape u)
                then Inr (Tensor (sum_list (map (\<lambda>t. hd (shape t)) (u # us)) # tl (shape u))
                                 (concat (map elems (u # us))))
                else Inl (RuntimeError
                            ''Sizes of tensors must match except in dimension 0'')))"

text \<open>The slice \<open>t[lo:hi]\<close> along dimension 0, used to state which rows hold what.\<close>

definition rows :: "'a tensor \<Rightarrow> nat \<Rightarrow> nat \<Rightarrow> 'a tensor" where
  "rows t lo hi =
     Tensor ((hi - lo) # tl (shape t))
            (take ((hi - lo) * prod_list (tl (shape t)))
                  (drop (lo * prod_list (tl (shape t))) (elems t)))"

subsection \<open>Checkpoints\<close>

text \<open>
  Both state dicts are ordered dictionaries: association lists with distinct keys, in
  insertion order. Reading a missing key raises KeyError; assigning to a key replaces
  its value in place or appends a new entry.
\<close>

type_synonym 'a checkpoint = "(string \<times> 'a tensor) list"

definition getitem :: "'a checkpoint \<Rightarrow> string \<Rightarrow> error + 'a tensor" where
  "getitem d k = (case map_of d k of None \<Rightarrow> Inl (KeyError k) | Some t \<Rightarrow> Inr t)"

record 'a conv_state =
  nemo_weights :: "'a checkpoint"
  stdout :: "string list"

definition setitem :: "string \<Rightarrow> 'a tensor \<Rightarrow> 'a conv_state \<Rightarrow> 'a conv_state" where
  "setitem key t st = st\<lparr>nemo_weights := AList.update key t (nemo_weights st)\<rparr>"

definition py_print :: "string \<Rightarrow> 'a conv_state \<Rightarrow> 'a conv_state" where
  "py_print line st = st\<lparr>stdout := stdout st @ [line]\<rparr>"

subsection \<open>\<open>convert_weights\<close>\<close>

text \<open>
  The inner helper \<open>_get_model_type_block_layer\<close>: the root module, then segment 2 and
  segment 4 of the key as integers, evaluated in that order.
\<close>

definition get_model_type_block_layer :: "string \<Rightarrow> error + (string \<times> int \<times> int)" where
  "get_model_type_block_layer k =
     (case (if startswith k ''encoder'' then Inr ''encoder''
            else if startswith k ''decoder'' then Inr ''decoder''
            else Inl (ValueError (''Unknown model type for '' @ k))) of
        Inl e \<Rightarrow> Inl e
      | Inr model_type \<Rightarrow>
     (case getitem_list (py_split CHR ''.'' k) 2 of Inl e \<Rightarrow> Inl e | Inr s2 \<Rightarrow>
     (case py_int s2 of Inl e \<Rightarrow> Inl e | Inr block_number \<Rightarrow>
     (case getitem_list (py_split CHR ''.'' k) 4 of Inl e \<Rightarrow> Inl e | Inr s4 \<Rightarrow>
     (case py_int s4 of Inl e \<Rightarrow> Inl e | Inr layer_number \<Rightarrow>
        Inr (model_type, block_number, layer_number))))))"

text \<open>The target names the f-strings build.\<close>

definition layer_key :: "string \<Rightarrow> int \<Rightarrow> string \<Rightarrow> string" where
  "layer_key model_type block_number leaf =
     ''enc_dec_model.enc_dec_model.'' @ model_type @ ''.model.layers.''
       @ py_str block_number @ leaf"

definition final_key :: "string \<Rightarrow> string" where
  "final_key model_type =
     ''enc_dec_model.enc_dec_model.'' @ model_type @ ''.model.final_layernorm.weight''"

text \<open>An assignment to \<open>nemo_weights\<close> followed by its progress line.\<close>

definition mapped :: "string \<Rightarrow> string \<Rightarrow> 'a tensor \<Rightarrow> 'a conv_state \<Rightarrow> 'a conv_state" where
  "mapped k target t st = py_print (''Mapped '' @ k @ '' to '' @ target) (setitem target t st)"

text \<open>
  One iteration of the loop over \<open>hf_weights.items()\<close>: the \<open>if\<close>/\<open>elif\<close> chain in the
  order of the source.
\<close>

definition convert_weights_step ::
  "'a checkpoint \<Rightarrow> string \<Rightarrow> 'a tensor \<Rightarrow> 'a conv_state \<Rightarrow> error + 'a conv_state" where
  "convert_weights_step hf_weights k v st =
  (if k = ''shared.weight'' then Inr st
   else if k = ''lm_head.weight'' then
     Inr (py_print (''Mapped '' @ k @
            '' to enc_dec_model.decoder_embedding.word_embeddings.weight and enc_dec_model.tokens_head.weight'')
           (setitem ''enc_dec_model.tokens_head.weight'' v st))
   else if k = ''decoder.embed_tokens.weight'' then
     Inr (setitem ''enc_dec_model.decoder_embedding.word_embeddings.weight'' v st)
   else if k = ''encoder.embed_tokens.weight'' then
     Inr (mapped k ''enc_dec_model.encoder_embedding.word_embeddings.weight'' v st)
   else if k = ''encoder.block.0.layer.0.SelfAttention.relative_attention_bias.weight'' then
     Inr (mapped k
       ''enc_dec_model.encoder_relative_position_embedding.relative_position_embedding.weight''
       v st)
   else if k = ''decoder.block.0.layer.0.SelfAttention.relative_attention_bias.weight'' then
     Inr (mapped k
       ''enc_dec_model.decoder_relative_position_embedding.relative_position_embedding.weight''
       v st)
   else if py_in ''SelfAttention.q.weight'' k then
     (case get_model_type_block_layer k of Inl e \<Rightarrow> Inl e
      | Inr (model_type, block_number, layer_number) \<Rightarrow>
     (case getitem hf_weights (py_replace ''q.weight'' ''k.weight'' k) of Inl e \<Rightarrow> Inl e
      | Inr k_weight \<Rightarrow>
     (case getitem hf_weights (py_replace ''q.weight'' ''v.weight'' k) of Inl e \<Rightarrow> Inl e
      | Inr v_weight \<Rightarrow>
     (case torch_cat [v, k_weight, v_weight] of Inl e \<Rightarrow> Inl e
      | Inr concat_weights \<Rightarrow>
        Inr (mapped k
          (layer_key model_type block_number ''.self_attention.query_key_value.weight'')
          concat_weights st)))))
   else if py_in ''SelfAttention.k.weight'' k \<or> py_in ''SelfAttention.v.weight'' k then Inr st
   else if py_in ''SelfAttention.o.weight'' k then
     (case get_model_type_block_layer k of Inl e \<Rightarrow> Inl e
      | Inr (model_type, block_number0, layer_number0) \<Rightarrow>
     (case getitem_list (py_split CHR ''.'' k) 2 of Inl e \<Rightarrow> Inl e | Inr s2 \<Rightarrow>
     (case py_int s2 of Inl e \<Rightarrow> Inl e | Inr block_number \<Rightarrow>
     (case getitem_list (py_split CHR ''.'' k) 4 of Inl e \<Rightarrow> Inl e | Inr s4 \<Rightarrow>
     (case py_int s4 of Inl e \<Rightarrow> Inl e | Inr layer_number \<Rightarrow>
        Inr (mapped k (layer_key model_type block_number ''.self_attention.dense.weight'')
               v st))))))
   else if py_in ''EncDecAttention.k.weight'' k then
     (case get_model_type_block_layer k of Inl e \<Rightarrow> Inl e
      | Inr (model_type, block_number, layer_number) \<Rightarrow>
     (case getitem hf_weights (py_replace ''k.weight'' ''v.weight'' k) of Inl e \<Rightarrow> Inl e
      | Inr v_weight \<Rightarrow>
     (case torch_cat [v, v_weight] of Inl e \<Rightarrow> Inl e
      | Inr concat_weights \<Rightarrow>
        Inr (mapped k (layer_key ''decoder'' block_number ''.inter_attention.key_value.weight'')
               concat_weights st))))
   else if py_in ''EncDecAttention.v.weight'' k then Inr st
   else if py_in ''EncDecAttention.q.weight'' k then
     (case get_model_type_block_layer k of Inl e \<Rightarrow> Inl e
      | Inr (model_type, block_number, layer_number) \<Rightarrow>
        Inr (mapped k (layer_key ''decoder'' block_number ''.inter_attention.query.weight'')
               v st))
   else if py_in ''EncDecAttention.o.weight'' k then
     (case get_model_type_block_layer k of Inl e \<Rightarrow> Inl e
      | Inr (model_type, block_number, layer_number) \<Rightarrow>
        Inr (mapped k (layer_key ''decoder'' block_number ''.inter_attention.dense.weight'')
               v st))
   else if py_in ''DenseReluDense.wi_0.weight'' k then
     (case get_model_type_block_layer k of Inl e \<Rightarrow> Inl e
      | Inr (model_type, block_number, layer_number) \<Rightarrow>
        Inr (mapped k (layer_key model_type block_number ''.mlp.dense_h_to_4h.weight'') v st))
   else if py_in ''DenseReluDense.wi_1.weight'' k then
     (case get_model_type_block_layer k of Inl e \<Rightarrow> Inl e
      | Inr (model_type, block_number, layer_number) \<Rightarrow>
        Inr (mapped k (layer_key model_type block_number ''.mlp.dense_h_to_4h_2.weight'') v st))
   else if py_in ''DenseReluDense.wo.weight'' k then
     (case get_model_type_block_layer k of Inl e \<Rightarrow> Inl e
      | Inr (model_type, block_number, layer_number) \<Rightarrow>
        Inr (mapped k (layer_key model_type block_number ''.mlp.dense_4h_to_h.weight'') v st))
   else if py_in ''layer_norm'' k then
     (if py_in ''final'' k then
        Inr (mapped k
               (final_key (if startswith k ''encoder'' then ''encoder'' else ''decoder''))
               v st)
      else
        (case get_model_type_block_layer k of Inl e \<Rightarrow> Inl e
         | Inr (model_type, block_number, layer_number) \<Rightarrow>
           if layer_number = 0 \<and> model_type = ''encoder'' then
             Inr (mapped k (layer_key model_type block_number ''.input_layernorm.weight'') v st)
           else if layer_number = 1 \<and> model_type = ''encoder'' then
             Inr (mapped k
                    (layer_key model_type block_number ''.post_attention_layernorm.weight'')
                    v st)
           else if layer_number = 0 \<and> model_type = ''decoder'' then
             Inr (mapped k (layer_key model_type block_number ''.input_layernorm.weight'') v st)
           else if layer_number = 1 \<and> model_type = ''decoder'' then
             Inr (mapped k
                    (layer_key model_type block_number ''.post_attention_layernorm.weight'')
                    v st)
           else if layer_number = 2 \<and> model_type = ''decoder'' then
             Inr (mapped k
                    (layer_key model_type block_number
                       ''.post_inter_attention_layernorm.weight'')
                    v st)
           else Inl (ValueError (''Unknown layer_norm key: '' @ k))))
   else Inl (ValueError (''Unknown key: '' @ k)))"

text \<open>The loop stops at the first exception.\<close>

fun convert_weights_loop ::
  "'a checkpoint \<Rightarrow> (string \<times> 'a tensor) list \<Rightarrow> 'a conv_state \<Rightarrow> error + 'a conv_state" where
  "convert_weights_loop hf_weights [] st = Inr st"
| "convert_weights_loop hf_weights ((k, v) # rest) st =
     (case convert_weights_step hf_weights k v st of
        Inl e \<Rightarrow> Inl e
      | Inr st' \<Rightarrow> convert_weights_loop hf_weights rest st')"

text \<open>
  \<open>convert_weights\<close> from the loaded state dict on. \<open>torch.save\<close> is its last effect: a
  run that raises ends before it and writes nothing to \<open>nemo_state_dict_path\<close>; a run that
  returns has written the \<open>nemo_weights\<close> of its final state there.
\<close>

definition convert_weights :: "'a checkpoint \<Rightarrow> string \<Rightarrow> error + 'a conv_state" where
  "convert_weights hf_weights nemo_state_dict_path =
     (case convert_weights_loop hf_weights hf_weights
             \<lparr>nemo_weights = [],
              stdout = [''Found '' @ py_str (int (length hf_weights))
                          @ '' keys in the checkpoint'']\<rparr> of
        Inl e \<Rightarrow> Inl e
      | Inr st \<Rightarrow> Inr (py_print (''Saved weights to '' @ nemo_state_dict_path) st))"

subsection \<open>The activation lookup of \<open>package_into_nemo_file\<close>\<close>

definition act_fn :: "string \<Rightarrow> error + string" where
  "act_fn dense_act_fn =
     (if dense_act_fn = ''silu'' then Inr ''swiglu''
      else if dense_act_fn = ''gelu_new'' then Inr ''geglu''
      else Inl (ValueError (''Unknown dense_act_fn: '' @ dense_act_fn)))"

subsection \<open>The handling rules\<close>

text \<open>
  The rule of the \<open>if\<close>/\<open>elif\<close> chain that a key is dispatched to: the tests of
  \<open>convert_weights\<close> in their order, without the bodies.
\<close>

datatype rule =
    Shared_skip | Lm_head | Decoder_embed | Encoder_embed | Encoder_rpe | Decoder_rpe
  | Self_qkv | Self_kv_skip | Self_o
  | Cross_kv | Cross_v_skip | Cross_q | Cross_o
  | Ffn_wi_0 | Ffn_wi_1 | Ffn_wo
  | Layer_norm | No_rule

definition rule_of :: "string \<Rightarrow> rule" where
  "rule_of k =
  (if k = ''shared.weight'' then Shared_skip
   else if k = ''lm_head.weight'' then Lm_head
   else if k = ''decoder.embed_tokens.weight'' then Decoder_embed
   else if k = ''encoder.embed_tokens.weight'' then Encoder_embed
   else if k = ''encoder.block.0.layer.0.SelfAttention.relative_attention_bias.weight''
     then Encoder_rpe
   else if k = ''decoder.block.0.layer.0.SelfAttention.relative_attention_bias.weight''
     then Decoder_rpe
   else if py_in ''SelfAttention.q.weight'' k then Self_qkv
   else if py_in ''SelfAttention.k.weight'' k \<or> py_in ''SelfAttention.v.weight'' k
     then Self_kv_skip
   else if py_in ''SelfAttention.o.weight'' k then Self_o
   else if py_in ''EncDecAttention.k.weight'' k then Cross_kv
   else if py_in ''EncDecAttention.v.weight'' k then Cross_v_skip
   else if py_in ''EncDecAttention.q.weight'' k then Cross_q
   else if py_in ''EncDecAttention.o.weight'' k then Cross_o
   else if py_in ''DenseReluDense.wi_0.weight'' k then Ffn_wi_0
   else if py_in ''DenseReluDense.wi_1.weight'' k then Ffn_wi_1
   else if py_in ''DenseReluDense.wo.weight'' k then Ffn_wo
   else if py_in ''layer_norm'' k then Layer_norm
   else No_rule)"

text \<open>
  What one iteration assigns to \<open>nemo_weights\<close>: the entries it leaves in an empty
  dictionary.
\<close>

definition step_write :: "'a checkpoint \<Rightarrow> string \<Rightarrow> 'a tensor \<Rightarrow> error + 'a checkpoint" where
  "step_write hf_weights k v =
     (case convert_weights_step hf_weights k v \<lparr>nemo_weights = [], stdout = []\<rparr> of
        Inl e \<Rightarrow> Inl e
      | Inr st \<Rightarrow> Inr (nemo_weights st))"

text \<open>All assignments of a pass, in order, and the passes that assign no target twice.\<close>

definition writes_of :: "'a checkpoint \<Rightarrow> (string \<times> 'a tensor) list \<Rightarrow> 'a checkpoint" where
  "writes_of hf_weights items =
     concat (map (\<lambda>(k, v). case step_write hf_weights k v of Inl e \<Rightarrow> [] | Inr ws \<Rightarrow> ws)
                 items)"

definition pass_writes :: "'a checkpoint \<Rightarrow> 'a checkpoint" where
  "pass_writes hf_weights = writes_of hf_weights hf_weights"

definition collision_free :: "'a checkpoint \<Rightarrow> bool" where
  "collision_free hf_weights = distinct (map fst (pass_writes hf_weights))"

subsection \<open>The source naming scheme\<close>

text \<open>
  The keys of a T5 v1.1 state dict: a root module, and for the weights of a block the
  block index, the sub-layer index and the leaf.
\<close>

datatype root = Encoder | Decoder

datatype leaf =
    SelfQ | SelfK | SelfV | SelfO
  | CrossQ | CrossK | CrossV | CrossO
  | Wi0 | Wi1 | Wo
  | Norm

datatype source_key =
    Shared
  | LmHead
  | EmbedTokens root
  | RelBias root
  | Block root nat nat leaf
  | FinalNorm root

fun root_name :: "root \<Rightarrow> string" where
  "root_name Encoder = ''encoder''"
| "root_name Decoder = ''decoder''"

fun leaf_name :: "leaf \<Rightarrow> string" where
  "leaf_name SelfQ = ''.SelfAttention.q.weight''"
| "leaf_name SelfK = ''.SelfAttention.k.weight''"
| "leaf_name SelfV = ''.SelfAttention.v.weight''"
| "leaf_name SelfO = ''.SelfAttention.o.weight''"
| "leaf_name CrossQ = ''.EncDecAttention.q.weight''"
| "leaf_name CrossK = ''.EncDecAttention.k.weight''"
| "leaf_name CrossV = ''.EncDecAttention.v.weight''"
| "leaf_name CrossO = ''.EncDecAttention.o.weight''"
| "leaf_name Wi0 = ''.DenseReluDense.wi_0.weight''"
| "leaf_name Wi1 = ''.DenseReluDense.wi_1.weight''"
| "leaf_name Wo = ''.DenseReluDense.wo.weight''"
| "leaf_name Norm = ''.layer_norm.weight''"

definition block_key :: "string \<Rightarrow> nat \<Rightarrow> nat \<Rightarrow> string \<Rightarrow> string" where
  "block_key model_type n l lf =
     model_type @ ''.block.'' @ dec_nat n @ ''.layer.'' @ dec_nat l @ lf"

fun key_name :: "source_key \<Rightarrow> string" where
  "key_name Shared = ''shared.weight''"
| "key_name LmHead = ''lm_head.weight''"
| "key_name (EmbedTokens r) = root_name r @ ''.embed_tokens.weight''"
| "key_name (RelBias r) =
     block_key (root_name r) 0 0 ''.SelfAttention.relative_attention_bias.weight''"
| "key_name (Block r n l lf) = block_key (root_name r) n l (leaf_name lf)"
| "key_name (FinalNorm r) = root_name r @ ''.final_layer_norm.weight''"

text \<open>
  Cross-attention belongs to the decoder; the encoder has the normalizations of sub-layers
  0 and 1, the decoder those of sub-layers 0, 1 and 2.
\<close>

fun in_scheme :: "source_key \<Rightarrow> bool" where
  "in_scheme (Block r n l lf) =
     (if lf = Norm then (r = Encoder \<and> l < 2) \<or> (r = Decoder \<and> l < 3)
      else if lf \<in> {CrossQ, CrossK, CrossV, CrossO} then r = Decoder
      else True)"
| "in_scheme d = True"

text \<open>The target name expected for each source key; \<open>None\<close> for a key with no entry of its own.\<close>

fun norm_leaf :: "nat \<Rightarrow> string" where
  "norm_leaf l =
     (if l = 0 then ''.input_layernorm.weight''
      else if l = 1 then ''.post_attention_layernorm.weight''
      else ''.post_inter_attention_layernorm.weight'')"

fun target_leaf :: "nat \<Rightarrow> leaf \<Rightarrow> string option" where
  "target_leaf l SelfQ = Some ''.self_attention.query_key_value.weight''"
| "target_leaf l SelfK = None"
| "target_leaf l SelfV = None"
| "target_leaf l SelfO = Some ''.self_attention.dense.weight''"
| "target_leaf l CrossQ = Some ''.inter_attention.query.weight''"
| "target_leaf l CrossK = Some ''.inter_attention.key_value.weight''"
| "target_leaf l CrossV = None"
| "target_leaf l CrossO = Some ''.inter_attention.dense.weight''"
| "target_leaf l Wi0 = Some ''.mlp.dense_h_to_4h.weight''"
| "target_leaf l Wi1 = Some ''.mlp.dense_h_to_4h_2.weight''"
| "target_leaf l Wo = Some ''.mlp.dense_4h_to_h.weight''"
| "target_leaf l Norm = Some (norm_leaf l)"

fun target_name :: "source_key \<Rightarrow> string option" where
  "target_name Shared = None"
| "target_name LmHead = Some ''enc_dec_model.tokens_head.weight''"
| "target_name (EmbedTokens r) =
     Some (''enc_dec_model.'' @ root_name r @ ''_embedding.word_embeddings.weight'')"
| "target_name (RelBias r) =
     Some (''enc_dec_model.'' @ root_name r
             @ ''_relative_position_embedding.relative_position_embedding.weight'')"
| "target_name (Block r n l lf) =
     map_option (layer_key (root_name r) (int n)) (target_leaf l lf)"
| "target_name (FinalNorm r) = Some (final_key (root_name r))"

text \<open>
  The tensors of a fused projection: the siblings are present and have the shape of the
  trigger's tensor, which is not a scalar.
\<close>

fun fusable :: "'a checkpoint \<Rightarrow> source_key \<Rightarrow> 'a tensor \<Rightarrow> bool" where
  "fusable hf (Block r n l lf) t =
     (if lf = SelfQ then
        (case (map_of hf (key_name (Block r n l SelfK)), map_of hf (key_name (Block r n l SelfV))) of
           (Some kt, Some vt) \<Rightarrow> shape t \<noteq> [] \<and> shape kt = shape t \<and> shape vt = shape t
         | _ \<Rightarrow> False)
      else if lf = CrossK then
        (case map_of hf (key_name (Block r n l CrossV)) of
           Some vt \<Rightarrow> shape t \<noteq> [] \<and> shape vt = shape t
         | None \<Rightarrow> False)
      else True)"
| "fusable hf d t = True"

subsection \<open>The effect of one iteration\<close>

text \<open>
  Every iteration either raises whatever the state, or makes at most one assignment and
  prints some lines whatever the state. \<open>T\<close> bounds the target it may assign.
\<close>

definition apply_write ::
  "(string \<times> 'a tensor) option \<Rightarrow> string list \<Rightarrow> 'a conv_state \<Rightarrow> 'a conv_state" where
  "apply_write w ls st =
     \<lparr>nemo_weights =
        (case w of None \<Rightarrow> nemo_weights st
         | Some (t, x) \<Rightarrow> AList.update t x (nemo_weights st)),
      stdout = stdout st @ ls\<rparr>"

definition uniform :: "string set \<Rightarrow> ('a conv_state \<Rightarrow> error + 'a conv_state) \<Rightarrow> bool" where
  "uniform T f =
     ((\<exists>e. \<forall>st. f st = Inl e) \<or>
      (\<exists>w ls. (\<forall>t x. w = Some (t, x) \<longrightarrow> t \<in> T) \<and> (\<forall>st. f st = Inr (apply_write w ls st))))"

section \<open>Properties\<close>

subsection \<open>Digits, \<open>int\<close> and \<open>str\<close>\<close>

lemma below_ten: "(d::nat) < 10 \<Longrightarrow> d \<in> {0, 1, 2, 3, 4, 5, 6, 7, 8, 9}"
  by auto

lemma digit_char_props:
  "d < 10 \<Longrightarrow> is_digit (digit_char d) \<and> digit_val (digit_char d) = d"
  by (drule below_ten) (auto simp: is_digit_def digit_char_def digit_val_def)

lemma is_digit_props:
  "is_digit c \<Longrightarrow>
     \<not> is_space c \<and> c \<noteq> CHR ''.'' \<and> c \<noteq> CHR ''-'' \<and> c \<noteq> CHR ''+'' \<and> c \<noteq> CHR ''_''"
  by (auto simp: is_digit_def is_space_def)

lemma dec_nat_digits: "\<forall>c \<in> set (dec_nat n). is_digit c"
proof (induction n rule: dec_nat.induct)
  case (1 n)
  show ?case
  proof (cases "n < 10")
    case True
    then show ?thesis by (subst dec_nat.simps) (simp add: digit_char_props)
  next
    case False
    with 1 show ?thesis by (subst dec_nat.simps) (simp add: digit_char_props)
  qed
qed

lemma dec_nat_nonempty: "dec_nat n \<noteq> []"
  by (subst dec_nat.simps) simp

lemma dec_nat_0: "dec_nat 0 = ''0''"
  by (subst dec_nat.simps) (simp add: digit_char_def)

lemma digits_value_snoc:
  "is_digit c \<Longrightarrow> digits_value (xs @ [c]) = 10 * digits_value xs + digit_val c"
  by (simp add: digits_value_def)

lemma digits_value_dec_nat: "digits_value (dec_nat n) = n"
proof (induction n rule: dec_nat.induct)
  case (1 n)
  show ?case
  proof (cases "n < 10")
    case True
    then show ?thesis
      by (subst dec_nat.simps) (simp add: digits_value_def digit_char_props)
  next
    case False
    with 1 show ?thesis
      by (subst dec_nat.simps) (simp add: digits_value_snoc digit_char_props)
  qed
qed

lemma digit_run_all: "xs \<noteq> [] \<Longrightarrow> \<forall>c \<in> set xs. is_digit c \<Longrightarrow> digit_run xs"
  by (induction xs rule: digit_run.induct) (auto simp: is_digit_props)

lemma strip_digits:
  assumes ne: "xs \<noteq> []" and dg: "\<forall>c \<in> set xs. is_digit c"
  shows "py_strip xs = xs"
proof -
  from ne dg have a: "\<not> is_space (hd xs)" "\<not> is_space (last xs)"
    by (simp_all add: is_digit_props)
  from ne a(1) have "dropWhile is_space xs = xs" by (cases xs) simp_all
  moreover from ne a(2) have "dropWhile is_space (rev xs) = rev xs"
    by (cases "rev xs") (simp_all add: hd_rev)
  ultimately show ?thesis by (simp add: py_strip_def)
qed

lemma py_int_dec_nat: "py_int (dec_nat n) = Inr (int n)"
proof -
  have ne: "dec_nat n \<noteq> []" by (rule dec_nat_nonempty)
  have dg: "\<forall>c \<in> set (dec_nat n). is_digit c" by (rule dec_nat_digits)
  from ne dg have sign: "hd (dec_nat n) \<noteq> CHR ''-''" "hd (dec_nat n) \<noteq> CHR ''+''"
    by (simp_all add: is_digit_props)
  show ?thesis
    by (simp add: py_int_def strip_digits [OF ne dg] sign digit_run_all [OF ne dg]
          digits_value_dec_nat Let_def)
qed

lemma py_str_nat: "py_str (int n) = dec_nat n"
  by (simp add: py_str_def)

subsection \<open>\<open>split\<close>, \<open>in\<close> and \<open>replace\<close>\<close>

lemma py_split_prefix: "sep \<notin> set xs \<Longrightarrow> py_split sep (xs @ sep # ys) = xs # py_split sep ys"
  by (induction xs) auto

lemma py_split_none: "sep \<notin> set xs \<Longrightarrow> py_split sep xs = [xs]"
  by (induction xs) auto

lemma py_in_head: "c \<notin> set xs \<Longrightarrow> py_in (c # w) (xs @ ys) = py_in (c # w) ys"
  unfolding py_in_def
  by (induction xs) (auto simp: sublist_Cons_right)

lemma prefix_sep: "sep \<notin> set p \<Longrightarrow> prefix p (sep # ys) \<Longrightarrow> p = []"
  by (cases p) auto

lemma py_in_sep:
  assumes s: "sep \<notin> set p"
  shows "py_in p (xs @ sep # ys) = (py_in p xs \<or> py_in p ys)"
proof -
  have a: "sublist p (sep # ys) = sublist p ys"
    using prefix_sep [OF s] by (auto simp: sublist_Cons_right)
  have b: "sublist p xs" if "p = p1 @ p2" "suffix p1 xs" "prefix p2 (sep # ys)" for p1 p2
  proof -
    from s that(1) have "sep \<notin> set p2" by simp
    then have "p2 = []" using that(3) by (rule prefix_sep)
    with that show ?thesis by simp
  qed
  have c: "sublist p (xs @ sep # ys) \<Longrightarrow> sublist p xs \<or> sublist p ys"
    unfolding sublist_append a using b by blast
  have d: "sublist p xs \<or> sublist p ys \<Longrightarrow> sublist p (xs @ sep # ys)"
    unfolding sublist_append a by blast
  show ?thesis unfolding py_in_def using c d by blast
qed

lemma py_in_missing: "c \<in> set p \<Longrightarrow> c \<notin> set xs \<Longrightarrow> \<not> py_in p xs"
  unfolding py_in_def using set_mono_sublist by fastforce

lemma py_in_trans: "py_in p q \<Longrightarrow> py_in q k \<Longrightarrow> py_in p k"
  unfolding py_in_def by (rule sublist_order.order.trans)

lemma py_replace_skip:
  "old \<noteq> [] \<Longrightarrow> hd old \<notin> set xs \<Longrightarrow>
     py_replace old new (xs @ ys) = xs @ py_replace old new ys"
proof (induction xs)
  case Nil
  then show ?case by simp
next
  case (Cons a xs)
  then have "\<not> prefix old ((a # xs) @ ys)" by (cases old) auto
  with Cons show ?case by (subst py_replace.simps) simp
qed

subsection \<open>One iteration, rule by rule\<close>

lemma path_self_qkv:
  "rule_of k = Self_qkv \<Longrightarrow>
     k \<noteq> ''shared.weight'' \<and>
     k \<noteq> ''lm_head.weight'' \<and>
     k \<noteq> ''decoder.embed_tokens.weight'' \<and>
     k \<noteq> ''encoder.embed_tokens.weight'' \<and>
     k \<noteq> ''encoder.block.0.layer.0.SelfAttention.relative_attention_bias.weight'' \<and>
     k \<noteq> ''decoder.block.0.layer.0.SelfAttention.relative_attention_bias.weight'' \<and>
     py_in ''SelfAttention.q.weight'' k"
  by (simp add: rule_of_def split: if_split_asm)

lemma path_self_kv_skip:
  "rule_of k = Self_kv_skip \<Longrightarrow>
     k \<noteq> ''shared.weight'' \<and>
     k \<noteq> ''lm_head.weight'' \<and>
     k \<noteq> ''decoder.embed_tokens.weight'' \<and>
     k \<noteq> ''encoder.embed_tokens.weight'' \<and>
     k \<noteq> ''encoder.block.0.layer.0.SelfAttention.relative_attention_bias.weight'' \<and>
     k \<noteq> ''decoder.block.0.layer.0.SelfAttention.relative_attention_bias.weight'' \<and>
     \<not> py_in ''SelfAttention.q.weight'' k \<and>
     (py_in ''SelfAttention.k.weight'' k \<or> py_in ''SelfAttention.v.weight'' k)"
  by (simp add: rule_of_def split: if_split_asm)

lemma path_cross_kv:
  "rule_of k = Cross_kv \<Longrightarrow>
     k \<noteq> ''shared.weight'' \<and>
     k \<noteq> ''lm_head.weight'' \<and>
     k \<noteq> ''decoder.embed_tokens.weight'' \<and>
     k \<noteq> ''encoder.embed_tokens.weight'' \<and>
     k \<noteq> ''encoder.block.0.layer.0.SelfAttention.relative_attention_bias.weight'' \<and>
     k \<noteq> ''decoder.block.0.layer.0.SelfAttention.relative_attention_bias.weight'' \<and>
     \<not> py_in ''SelfAttention.q.weight'' k \<and>
     \<not> py_in ''SelfAttention.k.weight'' k \<and>
     \<not> py_in ''SelfAttention.v.weight'' k \<and>
     \<not> py_in ''SelfAttention.o.weight'' k \<and>
     py_in ''EncDecAttention.k.weight'' k"
  by (simp add: rule_of_def split: if_split_asm)

lemma path_cross_q:
  "rule_of k = Cross_q \<Longrightarrow>
     k \<noteq> ''shared.weight'' \<and>
     k \<noteq> ''lm_head.weight'' \<and>
     k \<noteq> ''decoder.embed_tokens.weight'' \<and>
     k \<noteq> ''encoder.embed_tokens.weight'' \<and>
     k \<noteq> ''encoder.block.0.layer.0.SelfAttention.relative_attention_bias.weight'' \<and>
     k \<noteq> ''decoder.block.0.layer.0.SelfAttention.relative_attention_bias.weight'' \<and>
     \<not> py_in ''SelfAttention.q.weight'' k \<and>
     \<not> py_in ''SelfAttention.k.weight'' k \<and>
     \<not> py_in ''SelfAttention.v.weight'' k \<and>
     \<not> py_in ''SelfAttention.o.weight'' k \<and>
     \<not> py_in ''EncDecAttention.k.weight'' k \<and>
     \<not> py_in ''EncDecAttention.v.weight'' k \<and>
     py_in ''EncDecAttention.q.weight'' k"
  by (simp add: rule_of_def split: if_split_asm)

lemma path_layer_norm:
  "rule_of k = Layer_norm \<Longrightarrow>
     k \<noteq> ''shared.weight'' \<and>
     k \<noteq> ''lm_head.weight'' \<and>
     k \<noteq> ''decoder.embed_tokens.weight'' \<and>
     k \<noteq> ''encoder.embed_tokens.weight'' \<and>
     k \<noteq> ''encoder.block.0.layer.0.SelfAttention.relative_attention_bias.weight'' \<and>
     k \<noteq> ''decoder.block.0.layer.0.SelfAttention.relative_attention_bias.weight'' \<and>
     \<not> py_in ''SelfAttention.q.weight'' k \<and>
     \<not> py_in ''SelfAttention.k.weight'' k \<and>
     \<not> py_in ''SelfAttention.v.weight'' k \<and>
     \<not> py_in ''SelfAttention.o.weight'' k \<and>
     \<not> py_in ''EncDecAttention.k.weight'' k \<and>
     \<not> py_in ''EncDecAttention.v.weight'' k \<and>
     \<not> py_in ''EncDecAttention.q.weight'' k \<and>
     \<not> py_in ''EncDecAttention.o.weight'' k \<and>
     \<not> py_in ''DenseReluDense.wi_0.weight'' k \<and>
     \<not> py_in ''DenseReluDense.wi_1.weight'' k \<and>
     \<not> py_in ''DenseReluDense.wo.weight'' k \<and>
     py_in ''layer_norm'' k"
  by (simp add: rule_of_def split: if_split_asm)

lemma path_no_rule:
  "rule_of k = No_rule \<Longrightarrow>
     k \<noteq> ''shared.weight'' \<and>
     k \<noteq> ''lm_head.weight'' \<and>
     k \<noteq> ''decoder.embed_tokens.weight'' \<and>
     k \<noteq> ''encoder.embed_tokens.weight'' \<and>
     k \<noteq> ''encoder.block.0.layer.0.SelfAttention.relative_attention_bias.weight'' \<and>
     k \<noteq> ''decoder.block.0.layer.0.SelfAttention.relative_attention_bias.weight'' \<and>
     \<not> py_in ''SelfAttention.q.weight'' k \<and>
     \<not> py_in ''SelfAttention.k.weight'' k \<and>
     \<not> py_in ''SelfAttention.v.weight'' k \<and>
     \<not> py_in ''SelfAttention.o.weight'' k \<and>
     \<not> py_in ''EncDecAttention.k.weight'' k \<and>
     \<not> py_in ''EncDecAttention.v.weight'' k \<and>
     \<not> py_in ''EncDecAttention.q.weight'' k \<and>
     \<not> py_in ''EncDecAttention.o.weight'' k \<and>
     \<not> py_in ''DenseReluDense.wi_0.weight'' k \<and>
     \<not> py_in ''DenseReluDense.wi_1.weight'' k \<and>
     \<not> py_in ''DenseReluDense.wo.weight'' k \<and>
     \<not> py_in ''layer_norm'' k"
  by (simp add: rule_of_def split: if_split_asm)


lemma step_self_qkv:
  "rule_of k = Self_qkv \<Longrightarrow> convert_weights_step hf k v st =
     (case get_model_type_block_layer k of Inl e \<Rightarrow> Inl e
      | Inr (model_type, block_number, layer_number) \<Rightarrow>
     (case getitem hf (py_replace ''q.weight'' ''k.weight'' k) of Inl e \<Rightarrow> Inl e
      | Inr k_weight \<Rightarrow>
     (case getitem hf (py_replace ''q.weight'' ''v.weight'' k) of Inl e \<Rightarrow> Inl e
      | Inr v_weight \<Rightarrow>
     (case torch_cat [v, k_weight, v_weight] of Inl e \<Rightarrow> Inl e
      | Inr concat_weights \<Rightarrow>
        Inr (mapped k
          (layer_key model_type block_number ''.self_attention.query_key_value.weight'')
          concat_weights st)))))"
  using path_self_qkv [of k] by (simp add: convert_weights_step_def)

lemma step_self_kv_skip: "rule_of k = Self_kv_skip \<Longrightarrow> convert_weights_step hf k v st = Inr st"
  using path_self_kv_skip [of k] by (simp add: convert_weights_step_def)

lemma step_cross_kv:
  "rule_of k = Cross_kv \<Longrightarrow> convert_weights_step hf k v st =
     (case get_model_type_block_layer k of Inl e \<Rightarrow> Inl e
      | Inr (model_type, block_number, layer_number) \<Rightarrow>
     (case getitem hf (py_replace ''k.weight'' ''v.weight'' k) of Inl e \<Rightarrow> Inl e
      | Inr v_weight \<Rightarrow>
     (case torch_cat [v, v_weight] of Inl e \<Rightarrow> Inl e
      | Inr concat_weights \<Rightarrow>
        Inr (mapped k (layer_key ''decoder'' block_number ''.inter_attention.key_value.weight'')
               concat_weights st))))"
  using path_cross_kv [of k] by (simp add: convert_weights_step_def)

lemma step_cross_q:
  "rule_of k = Cross_q \<Longrightarrow> convert_weights_step hf k v st =
     (case get_model_type_block_layer k of Inl e \<Rightarrow> Inl e
      | Inr (model_type, block_number, layer_number) \<Rightarrow>
        Inr (mapped k (layer_key ''decoder'' block_number ''.inter_attention.query.weight'')
               v st))"
  using path_cross_q [of k] by (simp add: convert_weights_step_def)

lemma step_layer_norm:
  "rule_of k = Layer_norm \<Longrightarrow> convert_weights_step hf k v st =
     (if py_in ''final'' k then
        Inr (mapped k
               (final_key (if startswith k ''encoder'' then ''encoder'' else ''decoder''))
               v st)
      else
        (case get_model_type_block_layer k of Inl e \<Rightarrow> Inl e
         | Inr (model_type, block_number, layer_number) \<Rightarrow>
           if layer_number = 0 \<and> model_type = ''encoder'' then
             Inr (mapped k (layer_key model_type block_number ''.input_layernorm.weight'') v st)
           else if layer_number = 1 \<and> model_type = ''encoder'' then
             Inr (mapped k
                    (layer_key model_type block_number ''.post_attention_layernorm.weight'')
                    v st)
           else if layer_number = 0 \<and> model_type = ''decoder'' then
             Inr (mapped k (layer_key model_type block_number ''.input_layernorm.weight'') v st)
           else if layer_number = 1 \<and> model_type = ''decoder'' then
             Inr (mapped k
                    (layer_key model_type block_number ''.post_attention_layernorm.weight'')
                    v st)
           else if layer_number = 2 \<and> model_type = ''decoder'' then
             Inr (mapped k
                    (layer_key model_type block_number
                       ''.post_inter_attention_layernorm.weight'')
                    v st)
           else Inl (ValueError (''Unknown layer_norm key: '' @ k))))"
  using path_layer_norm [of k] by (simp add: convert_weights_step_def)

lemma step_no_rule:
  "rule_of k = No_rule \<Longrightarrow>
     convert_weights_step hf k v st = Inl (ValueError (''Unknown key: '' @ k))"
  using path_no_rule [of k] by (simp add: convert_weights_step_def)

subsection \<open>Every iteration is uniform in the state\<close>

lemma uniform_Inl: "uniform T (\<lambda>st. Inl e)"
  by (simp add: uniform_def)

lemma uniform_skip: "uniform T (\<lambda>st. Inr st)"
  unfolding uniform_def
  by (rule disjI2, rule exI [of _ None], rule exI [of _ "[]"]) (simp add: apply_write_def)

lemma uniform_print_setitem: "t \<in> T \<Longrightarrow> uniform T (\<lambda>st. Inr (py_print l (setitem t x st)))"
  unfolding uniform_def
  by (rule disjI2, rule exI [of _ "Some (t, x)"], rule exI [of _ "[l]"])
     (simp add: apply_write_def setitem_def py_print_def)

lemma uniform_setitem: "t \<in> T \<Longrightarrow> uniform T (\<lambda>st. Inr (setitem t x st))"
  unfolding uniform_def
  by (rule disjI2, rule exI [of _ "Some (t, x)"], rule exI [of _ "[]"])
     (simp add: apply_write_def setitem_def)

lemma uniform_mapped: "t \<in> T \<Longrightarrow> uniform T (\<lambda>st. Inr (mapped k t x st))"
  unfolding mapped_def by (rule uniform_print_setitem)

lemma uniform_if:
  "(c \<Longrightarrow> uniform T f) \<Longrightarrow> (\<not> c \<Longrightarrow> uniform T g) \<Longrightarrow>
     uniform T (\<lambda>st. if c then f st else g st)"
  by (cases c) (simp_all add: uniform_def)

lemma uniform_case_sum:
  "(\<And>y. r = Inr y \<Longrightarrow> uniform T (f y)) \<Longrightarrow>
     uniform T (\<lambda>st. case r of Inl e \<Rightarrow> Inl e | Inr y \<Rightarrow> f y st)"
  by (cases r) (simp_all add: uniform_def)

lemma uniform_case_prod:
  "(\<And>a b. p = (a, b) \<Longrightarrow> uniform T (f a b)) \<Longrightarrow>
     uniform T (\<lambda>st. case p of (a, b) \<Rightarrow> f a b st)"
  by (cases p) simp

lemmas uniform_intros =
  uniform_if uniform_case_sum uniform_case_prod uniform_Inl uniform_skip
  uniform_setitem uniform_print_setitem uniform_mapped

lemma step_uniform: "uniform UNIV (convert_weights_step hf k v)"
  unfolding convert_weights_step_def [abs_def]
  by (intro uniform_intros UNIV_I)

lemma target_not_decoder_embedding:
  "layer_key mt b lf \<noteq> ''enc_dec_model.decoder_embedding.word_embeddings.weight''"
  "final_key mt \<noteq> ''enc_dec_model.decoder_embedding.word_embeddings.weight''"
  by (simp_all add: layer_key_def final_key_def)

lemma step_uniform_other:
  "k \<noteq> ''decoder.embed_tokens.weight'' \<Longrightarrow>
     uniform {t. t \<noteq> ''enc_dec_model.decoder_embedding.word_embeddings.weight''}
       (convert_weights_step hf k v)"
  unfolding convert_weights_step_def [abs_def]
  by (intro uniform_intros; simp add: target_not_decoder_embedding)

subsection \<open>Keys of the naming scheme\<close>

lemma dec_nat_free: "\<not> is_digit c \<Longrightarrow> c \<notin> set (dec_nat n)"
  using dec_nat_digits [of n] by blast

lemma stem_free:
  assumes "c \<notin> set ''encodr.blkay0123456789''"
  shows "c \<notin> set (block_key (root_name r) n l [])"
proof -
  from assms have d: "\<not> is_digit c" by (simp add: is_digit_def)
  then have "c \<notin> set (dec_nat n)" "c \<notin> set (dec_nat l)" by (simp_all add: dec_nat_free)
  with assms show ?thesis by (cases r) (simp_all add: block_key_def)
qed

lemma block_key_split: "block_key mt n l lf = block_key mt n l [] @ lf"
  by (simp add: block_key_def)

lemma py_in_block_upper:
  assumes "c \<notin> set ''encodr.blkay0123456789''"
  shows "py_in (c # w) (block_key (root_name r) n l lf) = py_in (c # w) lf"
  by (subst block_key_split) (rule py_in_head [OF stem_free [OF assms]])

lemma py_in_block_dotless:
  assumes "CHR ''.'' \<notin> set p" "c \<in> set p" "c \<notin> set ''encodr.blkay0123456789''"
  shows "py_in p (block_key (root_name r) n l (CHR ''.'' # rest)) = py_in p rest"
proof -
  have "\<not> py_in p (block_key (root_name r) n l [])"
    using assms(2) stem_free [OF assms(3)] by (rule py_in_missing)
  then show ?thesis by (subst block_key_split) (simp add: py_in_sep [OF assms(1)])
qed

lemma dot_notin_dec_nat: "CHR ''.'' \<notin> set (dec_nat n)"
  by (rule dec_nat_free) (simp add: is_digit_def)

lemma split_block_key:
  "py_split CHR ''.'' (block_key (root_name r) n l (CHR ''.'' # rest)) =
     root_name r # ''block'' # dec_nat n # ''layer'' # dec_nat l # py_split CHR ''.'' rest"
  by (cases r) (simp_all add: block_key_def py_split_prefix dot_notin_dec_nat)

lemma startswith_block_key:
  "startswith (block_key (root_name r) n l lf) ''encoder'' = (r = Encoder)"
  "startswith (block_key (root_name r) n l lf) ''decoder'' = (r = Decoder)"
  by (cases r; simp add: startswith_def block_key_def)+

lemma gmtbl_block:
  "get_model_type_block_layer (block_key (root_name r) n l (CHR ''.'' # rest)) =
     Inr (root_name r, int n, int l)"
proof -
  let ?k = "block_key (root_name r) n l (CHR ''.'' # rest)"
  have g2: "getitem_list (py_split CHR ''.'' ?k) 2 = Inr (dec_nat n)"
    and g4: "getitem_list (py_split CHR ''.'' ?k) 4 = Inr (dec_nat l)"
    by (simp_all add: split_block_key getitem_list_def)
  have "startswith ?k ''encoder'' = (r = Encoder)" "startswith ?k ''decoder'' = (r = Decoder)"
    by (rule startswith_block_key)+
  then have mt: "(if startswith ?k ''encoder'' then Inr ''encoder''
            else if startswith ?k ''decoder'' then Inr ''decoder''
            else Inl (ValueError (''Unknown model type for '' @ ?k))) = Inr (root_name r)"
    by (cases r) simp_all
  show ?thesis
    unfolding get_model_type_block_layer_def mt g2 g4 by (simp add: py_int_dec_nat)
qed

lemma py_in_eval:
  "py_in [] ys = True"
  "py_in (x # xs) [] = False"
  "py_in (x # xs) (y # ys) = (prefix (x # xs) (y # ys) \<or> py_in (x # xs) ys)"
  by (simp_all add: py_in_def sublist_Cons_right)

lemma block_key_simple_literals:
  "block_key (root_name r) n l lf \<noteq> ''shared.weight''"
  "block_key (root_name r) n l lf \<noteq> ''lm_head.weight''"
  "block_key (root_name r) n l lf \<noteq> ''decoder.embed_tokens.weight''"
  "block_key (root_name r) n l lf \<noteq> ''encoder.embed_tokens.weight''"
  by (cases r; simp add: block_key_def)+

lemma py_in_rab_leaf: "\<not> py_in ''relative_attention_bias'' (tl (leaf_name lf))"
  by (cases lf) (simp_all add: py_in_eval)

lemma leaf_name_dot: "leaf_name lf = CHR ''.'' # tl (leaf_name lf)"
  by (cases lf) simp_all

lemma py_in_underscore_block:
  "py_in ''relative_attention_bias'' (block_key (root_name r) n l (CHR ''.'' # rest)) =
     py_in ''relative_attention_bias'' rest"
  "py_in ''layer_norm'' (block_key (root_name r) n l (CHR ''.'' # rest)) =
     py_in ''layer_norm'' rest"
  by (rule py_in_block_dotless [where c = "CHR ''_''"]; simp)+

lemma py_in_final_block:
  "py_in ''final'' (block_key (root_name r) n l (CHR ''.'' # rest)) = py_in ''final'' rest"
  by (rule py_in_block_dotless [where c = "CHR ''f''"]; simp)

lemma block_key_not_rpe:
  assumes "py_in ''relative_attention_bias'' lit"
  shows "block_key (root_name r) n l (leaf_name lf) \<noteq> lit"
proof
  assume e: "block_key (root_name r) n l (leaf_name lf) = lit"
  with assms have "py_in ''relative_attention_bias''
      (block_key (root_name r) n l (CHR ''.'' # tl (leaf_name lf)))"
    using leaf_name_dot [of lf] by simp
  then have "py_in ''relative_attention_bias'' (tl (leaf_name lf))"
    by (simp only: py_in_underscore_block)
  with py_in_rab_leaf show False by blast
qed

lemma block_key_rpe_literals:
  "block_key (root_name r) n l (leaf_name lf) \<noteq>
     ''encoder.block.0.layer.0.SelfAttention.relative_attention_bias.weight''"
  "block_key (root_name r) n l (leaf_name lf) \<noteq>
     ''decoder.block.0.layer.0.SelfAttention.relative_attention_bias.weight''"
  by (rule block_key_not_rpe; simp add: py_in_eval)+

lemmas block_key_tests =
  block_key_simple_literals py_in_block_upper py_in_underscore_block py_in_final_block

lemma rule_of_block:
  "rule_of (block_key (root_name r) n l (leaf_name lf)) =
     (case lf of SelfQ \<Rightarrow> Self_qkv | SelfK \<Rightarrow> Self_kv_skip | SelfV \<Rightarrow> Self_kv_skip
      | SelfO \<Rightarrow> Self_o | CrossQ \<Rightarrow> Cross_q | CrossK \<Rightarrow> Cross_kv | CrossV \<Rightarrow> Cross_v_skip
      | CrossO \<Rightarrow> Cross_o | Wi0 \<Rightarrow> Ffn_wi_0 | Wi1 \<Rightarrow> Ffn_wi_1 | Wo \<Rightarrow> Ffn_wo
      | Norm \<Rightarrow> Layer_norm)"
  using block_key_rpe_literals [of r n l lf]
  by (cases lf) (simp_all add: rule_of_def block_key_tests py_in_eval)

lemma block_key_inject:
  assumes "block_key (root_name r) n l (CHR ''.'' # rest) =
           block_key (root_name r') n' l' (CHR ''.'' # rest')"
  shows "r = r' \<and> n = n' \<and> l = l'"
proof -
  from assms have "get_model_type_block_layer (block_key (root_name r) n l (CHR ''.'' # rest)) =
      get_model_type_block_layer (block_key (root_name r') n' l' (CHR ''.'' # rest'))"
    by simp
  then have "root_name r = root_name r'" "n = n'" "l = l'"
    by (simp_all add: gmtbl_block)
  then show ?thesis by (cases r; cases r') simp_all
qed

lemma rpe_literals:
  "''encoder.block.0.layer.0.SelfAttention.relative_attention_bias.weight'' =
     block_key (root_name Encoder) 0 0 ''.SelfAttention.relative_attention_bias.weight''"
  "''decoder.block.0.layer.0.SelfAttention.relative_attention_bias.weight'' =
     block_key (root_name Decoder) 0 0 ''.SelfAttention.relative_attention_bias.weight''"
  by (simp_all add: block_key_def dec_nat_0)

lemma rule_of_rel_bias_elsewhere:
  assumes "n \<noteq> 0 \<or> l \<noteq> 0"
  shows "rule_of (block_key (root_name r) n l ''.SelfAttention.relative_attention_bias.weight'')
           = No_rule"
proof -
  let ?k = "block_key (root_name r) n l ''.SelfAttention.relative_attention_bias.weight''"
  have "?k \<noteq> ''encoder.block.0.layer.0.SelfAttention.relative_attention_bias.weight''"
       "?k \<noteq> ''decoder.block.0.layer.0.SelfAttention.relative_attention_bias.weight''"
    unfolding rpe_literals using assms block_key_inject by blast+
  then show ?thesis
    by (simp add: rule_of_def block_key_tests py_in_eval)
qed

lemma step_norm_block:
  "convert_weights_step hf (block_key (root_name r) n l ''.layer_norm.weight'') v st =
     (if (r = Encoder \<and> l < 2) \<or> (r = Decoder \<and> l < 3)
      then Inr (mapped (block_key (root_name r) n l ''.layer_norm.weight'')
                  (layer_key (root_name r) (int n) (norm_leaf l)) v st)
      else Inl (ValueError (''Unknown layer_norm key: ''
                  @ block_key (root_name r) n l ''.layer_norm.weight'')))"
proof -
  let ?k = "block_key (root_name r) n l ''.layer_norm.weight''"
  have "rule_of ?k = Layer_norm"
    using rule_of_block [of r n l Norm] by simp
  note s = step_layer_norm [OF this, of hf v st]
  have f: "\<not> py_in ''final'' ?k"
    by (simp add: py_in_final_block py_in_eval)
  have g: "get_model_type_block_layer ?k = Inr (root_name r, int n, int l)"
    by (rule gmtbl_block)
  have l: "l < 2 \<longleftrightarrow> l = 0 \<or> l = 1" "l < 3 \<longleftrightarrow> l = 0 \<or> l = 1 \<or> l = 2"
    by auto
  show ?thesis unfolding s l using f g by (cases r) auto
qed

lemma step_final_norm:
  "convert_weights_step hf (root_name r @ ''.final_layer_norm.weight'') v st =
     Inr (mapped (root_name r @ ''.final_layer_norm.weight'') (final_key (root_name r)) v st)"
  by (cases r) (simp_all add: convert_weights_step_def py_in_eval startswith_def)

subsection \<open>Fusion: \<open>replace\<close> on scheme keys and \<open>torch.cat\<close>\<close>

lemma replace_self_q:
  assumes "py_replace ''q.weight'' new ''.SelfAttention.q.weight'' = lf'"
  shows "py_replace ''q.weight'' new (block_key (root_name r) n l ''.SelfAttention.q.weight'')
           = block_key (root_name r) n l lf'"
proof -
  have "hd ''q.weight'' \<notin> set (block_key (root_name r) n l [])"
    by (rule stem_free) simp
  then have "py_replace ''q.weight'' new
       (block_key (root_name r) n l [] @ ''.SelfAttention.q.weight'') =
     block_key (root_name r) n l [] @ py_replace ''q.weight'' new ''.SelfAttention.q.weight''"
    by (intro py_replace_skip) simp_all
  then show ?thesis
    unfolding assms by (simp add: block_key_def)
qed

lemma replace_self_q_k:
  "py_replace ''q.weight'' ''k.weight'' (block_key (root_name r) n l ''.SelfAttention.q.weight'')
     = block_key (root_name r) n l ''.SelfAttention.k.weight''"
  by (rule replace_self_q) code_simp

lemma replace_self_q_v:
  "py_replace ''q.weight'' ''v.weight'' (block_key (root_name r) n l ''.SelfAttention.q.weight'')
     = block_key (root_name r) n l ''.SelfAttention.v.weight''"
  by (rule replace_self_q) code_simp

lemma k_notin_dec_nat: "CHR ''k'' \<notin> set (dec_nat n)"
  by (rule dec_nat_free) (simp add: is_digit_def)

lemma not_prefix_weight_dec_nat: "\<not> prefix ''weight'' (dec_nat n @ xs)"
proof -
  obtain d ds where d: "dec_nat n = d # ds"
    using dec_nat_nonempty [of n] by (cases "dec_nat n") auto
  with dec_nat_digits [of n] have "is_digit d" by simp
  then have "d \<noteq> CHR ''w''" by (auto simp: is_digit_def)
  with d show ?thesis by simp
qed

lemma replace_cross_k_v:
  "py_replace ''k.weight'' ''v.weight''
     (block_key (root_name r) n l ''.EncDecAttention.k.weight'')
     = block_key (root_name r) n l ''.EncDecAttention.v.weight''"
proof -
  let ?old = "''k.weight''" and ?new = "''v.weight''"
  let ?B = "CHR ''.'' # dec_nat n @ ''.layer.'' @ dec_nat l"
  let ?A = "root_name r @ ''.bloc''"
  have key: "block_key (root_name r) n l lf = ?A @ (CHR ''k'' # ?B @ lf)" for lf
    by (simp add: block_key_def)
  have a: "hd ?old \<notin> set ?A" by (cases r) simp_all
  have b: "hd ?old \<notin> set ?B" by (simp add: k_notin_dec_nat)
  have "py_replace ?old ?new (?A @ (CHR ''k'' # ?B @ ''.EncDecAttention.k.weight'')) =
        ?A @ py_replace ?old ?new (CHR ''k'' # ?B @ ''.EncDecAttention.k.weight'')"
    using a by (intro py_replace_skip) simp_all
  also have "py_replace ?old ?new (CHR ''k'' # ?B @ ''.EncDecAttention.k.weight'') =
        CHR ''k'' # py_replace ?old ?new (?B @ ''.EncDecAttention.k.weight'')"
    by (subst py_replace.simps) (simp add: not_prefix_weight_dec_nat)
  also have "py_replace ?old ?new (?B @ ''.EncDecAttention.k.weight'') =
        ?B @ py_replace ?old ?new ''.EncDecAttention.k.weight''"
    using b by (intro py_replace_skip) simp_all
  also have "py_replace ?old ?new ''.EncDecAttention.k.weight'' = ''.EncDecAttention.v.weight''"
    by code_simp
  finally show ?thesis unfolding key .
qed

lemma torch_cat_3:
  assumes "shape q = [H, W]" "shape k = [H, W]" "shape v = [H, W]"
  shows "torch_cat [q, k, v] = Inr (Tensor [3 * H, W] (elems q @ elems k @ elems v))"
  using assms by (simp add: torch_cat_def)

lemma torch_cat_2:
  assumes "shape k = [H, W]" "shape v = [H, W]"
  shows "torch_cat [k, v] = Inr (Tensor [2 * H, W] (elems k @ elems v))"
  using assms by (simp add: torch_cat_def)

lemma rows_first:
  assumes "wf_tensor q" "shape q = [H, W]"
  shows "rows (Tensor (m # [W]) (elems q @ ys)) 0 H = q"
  using assms by (cases q) (simp add: rows_def wf_tensor_def)

lemma rows_second:
  assumes "wf_tensor q" "shape q = [H, W]" "wf_tensor k" "shape k = [H, W]"
  shows "rows (Tensor (m # [W]) (elems q @ elems k @ ys)) H (2 * H) = k"
  using assms by (cases q; cases k) (simp add: rows_def wf_tensor_def)

lemma rows_third:
  assumes "wf_tensor q" "shape q = [H, W]" "wf_tensor k" "shape k = [H, W]"
    "wf_tensor v" "shape v = [H, W]"
  shows "rows (Tensor (m # [W]) (elems q @ elems k @ elems v)) (2 * H) (3 * H) = v"
  using assms by (cases q; cases k; cases v) (simp add: rows_def wf_tensor_def)

lemma torch_cat_same_shape:
  assumes "\<forall>t \<in> set ts. shape t = s" "s \<noteq> []"
  shows "\<exists>c. torch_cat ts = Inr c"
proof (cases "filter (\<lambda>t. shape t \<noteq> [0]) ts")
  case Nil
  with assms show ?thesis by (auto simp: torch_cat_def)
next
  case (Cons u us)
  then have "set (u # us) \<subseteq> set ts" by (metis filter_is_subset)
  with assms have "\<forall>t \<in> set (u # us). shape t = s" by blast
  with assms Cons show ?thesis by (auto simp: torch_cat_def)
qed

subsection \<open>The whole pass\<close>

lemma step_cases:
  obtains (raises) e where "\<And>st. convert_weights_step hf k v st = Inl e"
  | (writes) w ls where "\<And>st. convert_weights_step hf k v st = Inr (apply_write w ls st)"
  using step_uniform [of hf k v] unfolding uniform_def by blast

lemma step_write_Inl:
  "convert_weights_step hf k v st = Inl e \<longleftrightarrow> step_write hf k v = Inl e"
  by (rule step_cases [of hf k v]) (simp_all add: step_write_def)

lemma step_write_Inr:
  assumes "step_write hf k v = Inr ws"
  shows "\<exists>ls. convert_weights_step hf k v st =
           Inr \<lparr>nemo_weights = fold (case_prod AList.update) ws (nemo_weights st),
                stdout = stdout st @ ls\<rparr>"
    and "length ws \<le> 1"
proof -
  have "(\<exists>ls. convert_weights_step hf k v st =
           Inr \<lparr>nemo_weights = fold (case_prod AList.update) ws (nemo_weights st),
                stdout = stdout st @ ls\<rparr>) \<and> length ws \<le> 1"
  proof (rule step_cases [of hf k v])
    fix e assume "\<And>st. convert_weights_step hf k v st = Inl e"
    with assms show ?thesis by (simp add: step_write_def)
  next
    fix w ls assume s: "\<And>st. convert_weights_step hf k v st = Inr (apply_write w ls st)"
    with assms have ws: "ws = (case w of None \<Rightarrow> [] | Some (t, x) \<Rightarrow> [(t, x)])"
      by (auto simp: step_write_def apply_write_def split: option.splits)
    show ?thesis
      unfolding s ws by (auto simp: apply_write_def split: option.splits)
  qed
  then show "\<exists>ls. convert_weights_step hf k v st =
           Inr \<lparr>nemo_weights = fold (case_prod AList.update) ws (nemo_weights st),
                stdout = stdout st @ ls\<rparr>"
    and "length ws \<le> 1" by blast+
qed

lemma writes_of_Cons:
  "writes_of hf ((k, v) # items) =
     (case step_write hf k v of Inl e \<Rightarrow> [] | Inr ws \<Rightarrow> ws) @ writes_of hf items"
  by (simp add: writes_of_def)

lemma loop_Inr:
  "convert_weights_loop hf items st = Inr st' \<Longrightarrow>
     (\<forall>(k, v) \<in> set items. \<exists>ws. step_write hf k v = Inr ws) \<and>
     nemo_weights st' = fold (case_prod AList.update) (writes_of hf items) (nemo_weights st)"
proof (induction items arbitrary: st)
  case Nil
  then show ?case by (simp add: writes_of_def)
next
  case (Cons kv items)
  obtain k v where kv: "kv = (k, v)" by (cases kv)
  from Cons.prems kv obtain st1 where
    s1: "convert_weights_step hf k v st = Inr st1"
    and l: "convert_weights_loop hf items st1 = Inr st'"
    by (auto split: sum.splits)
  from s1 obtain ws where ws: "step_write hf k v = Inr ws"
    using step_write_Inl [of hf k v st] by (cases "step_write hf k v") auto
  from step_write_Inr(1) [OF ws, of st] s1
  have n1: "nemo_weights st1 = fold (case_prod AList.update) ws (nemo_weights st)"
    by auto
  from Cons.IH [OF l] ws n1 kv show ?case
    by (simp add: writes_of_Cons)
qed

lemma loop_succeeds:
  "\<forall>(k, v) \<in> set items. \<exists>ws. step_write hf k v = Inr ws \<Longrightarrow>
     \<exists>st'. convert_weights_loop hf items st = Inr st'"
proof (induction items arbitrary: st)
  case Nil
  then show ?case by simp
next
  case (Cons kv items)
  obtain k v where kv: "kv = (k, v)" by (cases kv)
  with Cons.prems obtain ws where "step_write hf k v = Inr ws" by auto
  from step_write_Inr(1) [OF this, of st] obtain st1 where
    "convert_weights_step hf k v st = Inr st1" by blast
  moreover from Cons.prems have "\<forall>(k, v) \<in> set items. \<exists>ws. step_write hf k v = Inr ws"
    by simp
  from Cons.IH [OF this, of st1] obtain st' where
    "convert_weights_loop hf items st1 = Inr st'" by blast
  ultimately show ?case using kv by simp
qed

lemma loop_first_failure:
  assumes "\<forall>(k', v') \<in> set pre. \<exists>ws. step_write hf k' v' = Inr ws"
    and "step_write hf k v = Inl e"
  shows "convert_weights_loop hf (pre @ (k, v) # post) st = Inl e"
  using assms(1)
proof (induction pre arbitrary: st)
  case Nil
  from assms(2) have "convert_weights_step hf k v st = Inl e"
    by (simp add: step_write_Inl)
  then show ?case by simp
next
  case (Cons kv pre)
  obtain k' v' where kv: "kv = (k', v')" by (cases kv)
  with Cons.prems obtain ws where "step_write hf k' v' = Inr ws" by auto
  from step_write_Inr(1) [OF this, of st] obtain st1 where
    "convert_weights_step hf k' v' st = Inr st1" by blast
  moreover from Cons.prems have "\<forall>(k', v') \<in> set pre. \<exists>ws. step_write hf k' v' = Inr ws"
    by simp
  note Cons.IH [OF this, of st1]
  ultimately show ?case using kv by simp
qed

lemma loop_fails:
  assumes "(k, v) \<in> set items" "step_write hf k v = Inl e"
  shows "\<exists>e'. convert_weights_loop hf items st = Inl e'"
proof (cases "convert_weights_loop hf items st")
  case (Inl e')
  then show ?thesis by blast
next
  case (Inr st')
  from loop_Inr [OF this] assms show ?thesis by auto
qed

lemma convert_weights_Inr:
  "convert_weights hf path = Inr out \<Longrightarrow>
     (\<forall>(k, v) \<in> set hf. \<exists>ws. step_write hf k v = Inr ws) \<and>
     nemo_weights out = fold (case_prod AList.update) (pass_writes hf) []"
  unfolding convert_weights_def pass_writes_def
  by (auto split: sum.splits dest!: loop_Inr simp: py_print_def)

lemma convert_weights_succeeds:
  assumes "\<forall>(k, v) \<in> set hf. \<exists>ws. step_write hf k v = Inr ws"
  shows "\<exists>out. convert_weights hf path = Inr out"
proof -
  let ?st = "\<lparr>nemo_weights = [],
           stdout = [''Found '' @ py_str (int (length hf)) @ '' keys in the checkpoint'']\<rparr>"
  from loop_succeeds [OF assms, of ?st] obtain st' where
    "convert_weights_loop hf hf ?st = Inr st'" by blast
  then show ?thesis by (simp add: convert_weights_def)
qed

lemma convert_weights_fails:
  assumes "(k, v) \<in> set hf" "step_write hf k v = Inl e"
  shows "\<exists>e'. convert_weights hf path = Inl e'"
proof -
  let ?st = "\<lparr>nemo_weights = [],
           stdout = [''Found '' @ py_str (int (length hf)) @ '' keys in the checkpoint'']\<rparr>"
  from loop_fails [OF assms, of ?st] obtain e' where
    "convert_weights_loop hf hf ?st = Inl e'" by blast
  then show ?thesis by (simp add: convert_weights_def)
qed

lemma convert_weights_first_failure:
  assumes "hf = pre @ (k, v) # post"
    and "\<forall>(k', v') \<in> set pre. \<exists>ws. step_write hf k' v' = Inr ws"
    and "step_write hf k v = Inl e"
  shows "convert_weights hf path = Inl e"
proof -
  have "convert_weights_loop hf (pre @ (k, v) # post)
          \<lparr>nemo_weights = [],
           stdout = [''Found '' @ py_str (int (length hf)) @ '' keys in the checkpoint'']\<rparr>
        = Inl e"
    using assms(2,3) by (rule loop_first_failure)
  then show ?thesis
    unfolding convert_weights_def using assms(1) by simp
qed

lemma keys_fold_update:
  "fst ` set (fold (case_prod AList.update) ws al) = fst ` set al \<union> fst ` set ws"
  by (induction ws arbitrary: al) (auto simp: dom_update split: prod.splits)

lemma distinct_fold_update:
  "distinct (map fst al) \<Longrightarrow> distinct (map fst (fold (case_prod AList.update) ws al))"
  by (induction ws arbitrary: al) (auto simp: distinct_update split: prod.splits)

lemma map_of_fold_update:
  "distinct (map fst ws) \<Longrightarrow>
     map_of (fold (case_prod AList.update) ws al) = map_of al ++ map_of ws"
proof (induction ws arbitrary: al)
  case Nil
  then show ?case by simp
next
  case (Cons p ws)
  obtain t x where p: "p = (t, x)" by (cases p)
  with Cons.prems have d: "distinct (map fst ws)" and n: "t \<notin> fst ` set ws" by auto
  from n have none: "map_of ws t = None" by (simp add: map_of_eq_None_iff)
  have "map_of (fold (case_prod AList.update) ws (AList.update t x al)) =
        map_of (AList.update t x al) ++ map_of ws"
    by (rule Cons.IH [OF d])
  also have "\<dots> = (map_of al)(t \<mapsto> x) ++ map_of ws"
    by (simp add: update_conv')
  also have "\<dots> = map_of al ++ map_of ((t, x) # ws)"
    using none by (auto simp: map_add_def fun_eq_iff split: option.splits)
  finally show ?case unfolding p by (simp del: map_of.simps)
qed

lemma path_self_o:
  "rule_of k = Self_o \<Longrightarrow>
     k \<noteq> ''shared.weight'' \<and>
     k \<noteq> ''lm_head.weight'' \<and>
     k \<noteq> ''decoder.embed_tokens.weight'' \<and>
     k \<noteq> ''encoder.embed_tokens.weight'' \<and>
     k \<noteq> ''encoder.block.0.layer.0.SelfAttention.relative_attention_bias.weight'' \<and>
     k \<noteq> ''decoder.block.0.layer.0.SelfAttention.relative_attention_bias.weight'' \<and>
     \<not> py_in ''SelfAttention.q.weight'' k \<and>
     \<not> py_in ''SelfAttention.k.weight'' k \<and>
     \<not> py_in ''SelfAttention.v.weight'' k \<and>
     py_in ''SelfAttention.o.weight'' k"
  by (simp add: rule_of_def split: if_split_asm)

lemma path_cross_v_skip:
  "rule_of k = Cross_v_skip \<Longrightarrow>
     k \<noteq> ''shared.weight'' \<and>
     k \<noteq> ''lm_head.weight'' \<and>
     k \<noteq> ''decoder.embed_tokens.weight'' \<and>
     k \<noteq> ''encoder.embed_tokens.weight'' \<and>
     k \<noteq> ''encoder.block.0.layer.0.SelfAttention.relative_attention_bias.weight'' \<and>
     k \<noteq> ''decoder.block.0.layer.0.SelfAttention.relative_attention_bias.weight'' \<and>
     \<not> py_in ''SelfAttention.q.weight'' k \<and>
     \<not> py_in ''SelfAttention.k.weight'' k \<and>
     \<not> py_in ''SelfAttention.v.weight'' k \<and>
     \<not> py_in ''SelfAttention.o.weight'' k \<and>
     \<not> py_in ''EncDecAttention.k.weight'' k \<and>
     py_in ''EncDecAttention.v.weight'' k"
  by (simp add: rule_of_def split: if_split_asm)

lemma path_cross_o:
  "rule_of k = Cross_o \<Longrightarrow>
     k \<noteq> ''shared.weight'' \<and>
     k \<noteq> ''lm_head.weight'' \<and>
     k \<noteq> ''decoder.embed_tokens.weight'' \<and>
     k \<noteq> ''encoder.embed_tokens.weight'' \<and>
     k \<noteq> ''encoder.block.0.layer.0.SelfAttention.relative_attention_bias.weight'' \<and>
     k \<noteq> ''decoder.block.0.layer.0.SelfAttention.relative_attention_bias.weight'' \<and>
     \<not> py_in ''SelfAttention.q.weight'' k \<and>
     \<not> py_in ''SelfAttention.k.weight'' k \<and>
     \<not> py_in ''SelfAttention.v.weight'' k \<and>
     \<not> py_in ''SelfAttention.o.weight'' k \<and>
     \<not> py_in ''EncDecAttention.k.weight'' k \<and>
     \<not> py_in ''EncDecAttention.v.weight'' k \<and>
     \<not> py_in ''EncDecAttention.q.weight'' k \<and>
     py_in ''EncDecAttention.o.weight'' k"
  by (simp add: rule_of_def split: if_split_asm)

lemma path_ffn_wi_0:
  "rule_of k = Ffn_wi_0 \<Longrightarrow>
     k \<noteq> ''shared.weight'' \<and>
     k \<noteq> ''lm_head.weight'' \<and>
     k \<noteq> ''decoder.embed_tokens.weight'' \<and>
     k \<noteq> ''encoder.embed_tokens.weight'' \<and>
     k \<noteq> ''encoder.block.0.layer.0.SelfAttention.relative_attention_bias.weight'' \<and>
     k \<noteq> ''decoder.block.0.layer.0.SelfAttention.relative_attention_bias.weight'' \<and>
     \<not> py_in ''SelfAttention.q.weight'' k \<and>
     \<not> py_in ''SelfAttention.k.weight'' k \<and>
     \<not> py_in ''SelfAttention.v.weight'' k \<and>
     \<not> py_in ''SelfAttention.o.weight'' k \<and>
     \<not> py_in ''EncDecAttention.k.weight'' k \<and>
     \<not> py_in ''EncDecAttention.v.weight'' k \<and>
     \<not> py_in ''EncDecAttention.q.weight'' k \<and>
     \<not> py_in ''EncDecAttention.o.weight'' k \<and>
     py_in ''DenseReluDense.wi_0.weight'' k"
  by (simp add: rule_of_def split: if_split_asm)

lemma path_ffn_wi_1:
  "rule_of k = Ffn_wi_1 \<Longrightarrow>
     k \<noteq> ''shared.weight'' \<and>
     k \<noteq> ''lm_head.weight'' \<and>
     k \<noteq> ''decoder.embed_tokens.weight'' \<and>
     k \<noteq> ''encoder.embed_tokens.weight'' \<and>
     k \<noteq> ''encoder.block.0.layer.0.SelfAttention.relative_attention_bias.weight'' \<and>
     k \<noteq> ''decoder.block.0.layer.0.SelfAttention.relative_attention_bias.weight'' \<and>
     \<not> py_in ''SelfAttention.q.weight'' k \<and>
     \<not> py_in ''SelfAttention.k.weight'' k \<and>
     \<not> py_in ''SelfAttention.v.weight'' k \<and>
     \<not> py_in ''SelfAttention.o.weight'' k \<and>
     \<not> py_in ''EncDecAttention.k.weight'' k \<and>
     \<not> py_in ''EncDecAttention.v.weight'' k \<and>
     \<not> py_in ''EncDecAttention.q.weight'' k \<and>
     \<not> py_in ''EncDecAttention.o.weight'' k \<and>
     \<not> py_in ''DenseReluDense.wi_0.weight'' k \<and>
     py_in ''DenseReluDense.wi_1.weight'' k"
  by (simp add: rule_of_def split: if_split_asm)

lemma path_ffn_wo:
  "rule_of k = Ffn_wo \<Longrightarrow>
     k \<noteq> ''shared.weight'' \<and>
     k \<noteq> ''lm_head.weight'' \<and>
     k \<noteq> ''decoder.embed_tokens.weight'' \<and>
     k \<noteq> ''encoder.embed_tokens.weight'' \<and>
     k \<noteq> ''encoder.block.0.layer.0.SelfAttention.relative_attention_bias.weight'' \<and>
     k \<noteq> ''decoder.block.0.layer.0.SelfAttention.relative_attention_bias.weight'' \<and>
     \<not> py_in ''SelfAttention.q.weight'' k \<and>
     \<not> py_in ''SelfAttention.k.weight'' k \<and>
     \<not> py_in ''SelfAttention.v.weight'' k \<and>
     \<not> py_in ''SelfAttention.o.weight'' k \<and>
     \<not> py_in ''EncDecAttention.k.weight'' k \<and>
     \<not> py_in ''EncDecAttention.v.weight'' k \<and>
     \<not> py_in ''EncDecAttention.q.weight'' k \<and>
     \<not> py_in ''EncDecAttention.o.weight'' k \<and>
     \<not> py_in ''DenseReluDense.wi_0.weight'' k \<and>
     \<not> py_in ''DenseReluDense.wi_1.weight'' k \<and>
     py_in ''DenseReluDense.wo.weight'' k"
  by (simp add: rule_of_def split: if_split_asm)

lemma gmtbl_parts:
  assumes "get_model_type_block_layer k = Inr (mt, b, l)"
  shows "\<exists>s2 s4. getitem_list (py_split CHR ''.'' k) 2 = Inr s2 \<and> py_int s2 = Inr b \<and>
           getitem_list (py_split CHR ''.'' k) 4 = Inr s4 \<and> py_int s4 = Inr l"
  using assms unfolding get_model_type_block_layer_def
  by (auto split: sum.splits if_splits)

lemma step_self_o:
  assumes "rule_of k = Self_o" "get_model_type_block_layer k = Inr (mt, b, l)"
  shows "convert_weights_step hf k v st =
           Inr (mapped k (layer_key mt b ''.self_attention.dense.weight'') v st)"
proof -
  from gmtbl_parts [OF assms(2)] obtain s2 s4 where
    "getitem_list (py_split CHR ''.'' k) 2 = Inr s2" "py_int s2 = Inr b"
    "getitem_list (py_split CHR ''.'' k) 4 = Inr s4" "py_int s4 = Inr l" by blast
  with assms(2) path_self_o [OF assms(1)] show ?thesis
    by (simp add: convert_weights_step_def)
qed

lemma step_cross_v_skip: "rule_of k = Cross_v_skip \<Longrightarrow> convert_weights_step hf k v st = Inr st"
  using path_cross_v_skip [of k] by (simp add: convert_weights_step_def)

lemma step_cross_o:
  assumes "rule_of k = Cross_o" "get_model_type_block_layer k = Inr (mt, b, l)"
  shows "convert_weights_step hf k v st =
           Inr (mapped k (layer_key ''decoder'' b ''.inter_attention.dense.weight'') v st)"
  using assms(2) path_cross_o [OF assms(1)] by (simp add: convert_weights_step_def)

lemma step_ffn_wi_0:
  assumes "rule_of k = Ffn_wi_0" "get_model_type_block_layer k = Inr (mt, b, l)"
  shows "convert_weights_step hf k v st =
           Inr (mapped k (layer_key mt b ''.mlp.dense_h_to_4h.weight'') v st)"
  using assms(2) path_ffn_wi_0 [OF assms(1)] by (simp add: convert_weights_step_def)

lemma step_ffn_wi_1:
  assumes "rule_of k = Ffn_wi_1" "get_model_type_block_layer k = Inr (mt, b, l)"
  shows "convert_weights_step hf k v st =
           Inr (mapped k (layer_key mt b ''.mlp.dense_h_to_4h_2.weight'') v st)"
  using assms(2) path_ffn_wi_1 [OF assms(1)] by (simp add: convert_weights_step_def)

lemma step_ffn_wo:
  assumes "rule_of k = Ffn_wo" "get_model_type_block_layer k = Inr (mt, b, l)"
  shows "convert_weights_step hf k v st =
           Inr (mapped k (layer_key mt b ''.mlp.dense_4h_to_h.weight'') v st)"
  using assms(2) path_ffn_wo [OF assms(1)] by (simp add: convert_weights_step_def)

subsection \<open>What each scheme key assigns\<close>

lemma nemo_weights_mapped:
  "nemo_weights (mapped k tg x \<lparr>nemo_weights = [], stdout = []\<rparr>) = [(tg, x)]"
  by (simp add: mapped_def py_print_def setitem_def)

lemma step_write_mapped:
  assumes "\<And>st. convert_weights_step hf k v st = Inr (mapped k tg x st)"
  shows "step_write hf k v = Inr [(tg, x)]"
  unfolding step_write_def assms by (simp add: nemo_weights_mapped)

lemma step_write_skip:
  assumes "\<And>st. convert_weights_step hf k v st = Inr st"
  shows "step_write hf k v = Inr []"
  unfolding step_write_def assms by simp

lemma step_write_block:
  assumes "in_scheme (Block r n l lf)" "fusable hf (Block r n l lf) t"
  shows "\<exists>x. step_write hf (block_key (root_name r) n l (leaf_name lf)) t =
           Inr (case target_leaf l lf of None \<Rightarrow> []
                | Some tn \<Rightarrow> [(layer_key (root_name r) (int n) tn, x)])"
proof -
  let ?k = "block_key (root_name r) n l (leaf_name lf)"
  have g: "get_model_type_block_layer ?k = Inr (root_name r, int n, int l)"
    using gmtbl_block [of r n l "tl (leaf_name lf)"] leaf_name_dot [of lf] by simp
  note ru = rule_of_block [of r n l lf]
  show ?thesis
  proof (cases lf)
    case SelfQ
    with assms(2) obtain kt vt where
      sib: "map_of hf (block_key (root_name r) n l ''.SelfAttention.k.weight'') = Some kt"
        "map_of hf (block_key (root_name r) n l ''.SelfAttention.v.weight'') = Some vt"
      and sh: "shape t \<noteq> []" "shape kt = shape t" "shape vt = shape t"
      by (auto split: option.splits)
    from sh have "\<forall>u \<in> set [t, kt, vt]. shape u = shape t" by simp
    from torch_cat_same_shape [OF this sh(1)] obtain c where
      c: "torch_cat [t, kt, vt] = Inr c" by blast
    from ru SelfQ have "rule_of ?k = Self_qkv" by simp
    note s = step_self_qkv [OF this, of hf t]
    have "convert_weights_step hf ?k t st =
        Inr (mapped ?k (layer_key (root_name r) (int n)
               ''.self_attention.query_key_value.weight'') c st)" for st
      unfolding s using g sib c SelfQ
      by (simp add: replace_self_q_k replace_self_q_v getitem_def)
    from step_write_mapped [OF this] SelfQ show ?thesis by simp
  next
    case SelfK
    with ru have "rule_of ?k = Self_kv_skip" by simp
    from step_write_skip [OF step_self_kv_skip [OF this], where hf = hf and v = t] SelfK show ?thesis by simp
  next
    case SelfV
    with ru have "rule_of ?k = Self_kv_skip" by simp
    from step_write_skip [OF step_self_kv_skip [OF this], where hf = hf and v = t] SelfV show ?thesis by simp
  next
    case SelfO
    with ru have "rule_of ?k = Self_o" by simp
    from step_write_mapped [OF step_self_o [OF this g], where hf = hf and v = t] SelfO show ?thesis by simp
  next
    case CrossQ
    with assms(1) have d: "root_name r = ''decoder''" by simp
    from ru CrossQ have "rule_of ?k = Cross_q" by simp
    note s = step_cross_q [OF this, of hf t]
    have "convert_weights_step hf ?k t st =
        Inr (mapped ?k (layer_key (root_name r) (int n) ''.inter_attention.query.weight'')
               t st)" for st
      unfolding s g by (simp add: d)
    from step_write_mapped [OF this] CrossQ show ?thesis by simp
  next
    case CrossK
    with assms(1) have d: "root_name r = ''decoder''" by simp
    from CrossK assms(2) obtain vt where
      sib: "map_of hf (block_key (root_name r) n l ''.EncDecAttention.v.weight'') = Some vt"
      and sh: "shape t \<noteq> []" "shape vt = shape t"
      by (auto split: option.splits)
    from sh have "\<forall>u \<in> set [t, vt]. shape u = shape t" by simp
    from torch_cat_same_shape [OF this sh(1)] obtain c where
      c: "torch_cat [t, vt] = Inr c" by blast
    from ru CrossK have "rule_of ?k = Cross_kv" by simp
    note s = step_cross_kv [OF this, of hf t]
    have rep: "py_replace ''k.weight'' ''v.weight'' ?k =
        block_key (root_name r) n l ''.EncDecAttention.v.weight''"
      using CrossK replace_cross_k_v [of r n l] by simp
    have "convert_weights_step hf ?k t st =
        Inr (mapped ?k (layer_key (root_name r) (int n)
               ''.inter_attention.key_value.weight'') c st)" for st
      unfolding s g rep using sib c by (simp add: getitem_def d)
    from step_write_mapped [OF this] CrossK show ?thesis by simp
  next
    case CrossV
    with ru have "rule_of ?k = Cross_v_skip" by simp
    from step_write_skip [OF step_cross_v_skip [OF this], where hf = hf and v = t] CrossV show ?thesis by simp
  next
    case CrossO
    with assms(1) have d: "root_name r = ''decoder''" by simp
    from ru CrossO have "rule_of ?k = Cross_o" by simp
    from step_write_mapped [OF step_cross_o [OF this g], where hf = hf and v = t] CrossO
    show ?thesis by (simp add: d)
  next
    case Wi0
    with ru have "rule_of ?k = Ffn_wi_0" by simp
    from step_write_mapped [OF step_ffn_wi_0 [OF this g], where hf = hf and v = t] Wi0 show ?thesis by simp
  next
    case Wi1
    with ru have "rule_of ?k = Ffn_wi_1" by simp
    from step_write_mapped [OF step_ffn_wi_1 [OF this g], where hf = hf and v = t] Wi1 show ?thesis by simp
  next
    case Wo
    with ru have "rule_of ?k = Ffn_wo" by simp
    from step_write_mapped [OF step_ffn_wo [OF this g], where hf = hf and v = t] Wo show ?thesis by simp
  next
    case Norm
    with assms(1) have ok: "(r = Encoder \<and> l < 2) \<or> (r = Decoder \<and> l < 3)" by simp
    have "convert_weights_step hf (block_key (root_name r) n l ''.layer_norm.weight'') t st =
        Inr (mapped (block_key (root_name r) n l ''.layer_norm.weight'')
               (layer_key (root_name r) (int n) (norm_leaf l)) t st)" for st
      unfolding step_norm_block using ok by simp
    from step_write_mapped [OF this] Norm show ?thesis by simp
  qed
qed

lemma step_write_scheme:
  assumes "in_scheme d" "fusable hf d t"
  shows "\<exists>x. step_write hf (key_name d) t =
           Inr (case target_name d of None \<Rightarrow> [] | Some tg \<Rightarrow> [(tg, x)])"
proof (cases d)
  case Shared
  have "convert_weights_step hf ''shared.weight'' t st = Inr st" for st
    by (simp add: convert_weights_step_def)
  from step_write_skip [OF this] Shared show ?thesis by simp
next
  case LmHead
  have "step_write hf ''lm_head.weight'' t = Inr [(''enc_dec_model.tokens_head.weight'', t)]"
    by (simp add: step_write_def convert_weights_step_def py_print_def setitem_def)
  with LmHead show ?thesis by simp
next
  case (EmbedTokens r)
  have "step_write hf (root_name r @ ''.embed_tokens.weight'') t =
      Inr [(''enc_dec_model.'' @ root_name r @ ''_embedding.word_embeddings.weight'', t)]"
    by (cases r)
       (simp_all add: step_write_def convert_weights_step_def mapped_def py_print_def
          setitem_def)
  with EmbedTokens show ?thesis by simp
next
  case (RelBias r)
  have "step_write hf
      (block_key (root_name r) 0 0 ''.SelfAttention.relative_attention_bias.weight'') t =
      Inr [(''enc_dec_model.'' @ root_name r
             @ ''_relative_position_embedding.relative_position_embedding.weight'', t)]"
    by (cases r)
       (simp_all add: block_key_def dec_nat_0 step_write_def convert_weights_step_def
          mapped_def py_print_def setitem_def)
  with RelBias show ?thesis by simp
next
  case (Block r n l lf)
  from step_write_block [OF assms [unfolded Block]] obtain x where
    "step_write hf (block_key (root_name r) n l (leaf_name lf)) t =
           Inr (case target_leaf l lf of None \<Rightarrow> []
                | Some tn \<Rightarrow> [(layer_key (root_name r) (int n) tn, x)])" by blast
  with Block show ?thesis
    by (intro exI [of _ x]) (simp split: option.split)
next
  case (FinalNorm r)
  from step_write_mapped [OF step_final_norm, where hf = hf and v = t] FinalNorm show ?thesis by simp
qed

subsection \<open>The activation lookup\<close>

text \<open>
  C6. The lookup sends \<open>silu\<close> to \<open>swiglu\<close> and \<open>gelu_new\<close> to \<open>geglu\<close>; every other
  identifier raises a ValueError whose message is \<open>Unknown dense_act_fn: \<close> followed by
  the identifier, so the message names it.
\<close>

theorem act_fn_translation:
  "act_fn ''silu'' = Inr ''swiglu'' \<and>
   act_fn ''gelu_new'' = Inr ''geglu'' \<and>
   (\<forall>x. x \<noteq> ''silu'' \<and> x \<noteq> ''gelu_new'' \<longrightarrow>
      act_fn x = Inl (ValueError (''Unknown dense_act_fn: '' @ x)) \<and>
      py_in x (message (ValueError (''Unknown dense_act_fn: '' @ x))))"
proof -
  have "py_in x (''Unknown dense_act_fn: '' @ x)" for x
    unfolding py_in_def by (rule sublist_append_leftI)
  then show ?thesis by (simp add: act_fn_def)
qed

theorem act_fn_translation_witness:
  "''relu'' \<noteq> ''silu'' \<and> ''relu'' \<noteq> ''gelu_new'' \<and>
   act_fn ''relu'' = Inl (ValueError ''Unknown dense_act_fn: relu'') \<and>
   py_in ''relu'' ''Unknown dense_act_fn: relu''"
  using act_fn_translation by simp

subsection \<open>The output head and the decoder embedding\<close>

lemma uniformE:
  assumes "uniform T f"
  obtains e where "\<And>st. f st = Inl e"
  | w ls where "\<And>t x. w = Some (t, x) \<Longrightarrow> t \<in> T" "\<And>st. f st = Inr (apply_write w ls st)"
  using assms unfolding uniform_def by blast

lemma step_keeps_decoder_embedding:
  assumes "k \<noteq> ''decoder.embed_tokens.weight''" "convert_weights_step hf k v st = Inr st'"
  shows "map_of (nemo_weights st') ''enc_dec_model.decoder_embedding.word_embeddings.weight''
       = map_of (nemo_weights st) ''enc_dec_model.decoder_embedding.word_embeddings.weight''"
proof (rule uniformE [OF step_uniform_other [OF assms(1), of hf v]])
  fix e assume "\<And>st. convert_weights_step hf k v st = Inl e"
  with assms(2) show ?thesis by simp
next
  fix w ls
  assume t: "\<And>t x. w = Some (t, x) \<Longrightarrow> t \<in> {t. t \<noteq> ''enc_dec_model.decoder_embedding.word_embeddings.weight''}"
    and f: "\<And>st. convert_weights_step hf k v st = Inr (apply_write w ls st)"
  from f assms(2) have st': "st' = apply_write w ls st" by simp
  show ?thesis
  proof (cases w)
    case None
    then show ?thesis by (simp add: st' apply_write_def)
  next
    case (Some p)
    obtain a x where p: "p = (a, x)" by (cases p)
    with Some t have "a \<noteq> ''enc_dec_model.decoder_embedding.word_embeddings.weight''" by simp
    with Some p show ?thesis by (simp add: st' apply_write_def update_conv')
  qed
qed

lemma step_lm_head:
  "convert_weights_step hf ''lm_head.weight'' v st =
     Inr (st\<lparr>nemo_weights := AList.update ''enc_dec_model.tokens_head.weight'' v (nemo_weights st),
            stdout := stdout st @ [''Mapped lm_head.weight to enc_dec_model.decoder_embedding.word_embeddings.weight and enc_dec_model.tokens_head.weight'']\<rparr>)"
  by (simp add: convert_weights_step_def setitem_def py_print_def)

lemma step_decoder_embed:
  "convert_weights_step hf ''decoder.embed_tokens.weight'' v st =
     Inr (st\<lparr>nemo_weights := AList.update ''enc_dec_model.decoder_embedding.word_embeddings.weight'' v (nemo_weights st)\<rparr>)"
  by (simp add: convert_weights_step_def setitem_def)

lemma loop_decoder_embedding:
  "convert_weights_loop hf items st = Inr st' \<Longrightarrow> distinct (map fst items) \<Longrightarrow>
   map_of (nemo_weights st') ''enc_dec_model.decoder_embedding.word_embeddings.weight'' =
     (case map_of items ''decoder.embed_tokens.weight'' of
        None \<Rightarrow> map_of (nemo_weights st) ''enc_dec_model.decoder_embedding.word_embeddings.weight''
      | Some t \<Rightarrow> Some t)"
proof (induction items arbitrary: st)
  case Nil
  then show ?case by simp
next
  case (Cons kv items)
  obtain k v where kv: "kv = (k, v)" by (cases kv)
  from Cons.prems(1) kv obtain st1 where
    s1: "convert_weights_step hf k v st = Inr st1" and l: "convert_weights_loop hf items st1 = Inr st'"
    by (auto split: sum.splits)
  from Cons.prems(2) kv have d: "distinct (map fst items)" and nk: "k \<notin> fst ` set items" by auto
  note ih = Cons.IH [OF l d]
  show ?case
  proof (cases "k = ''decoder.embed_tokens.weight''")
    case True
    with nk have "map_of items ''decoder.embed_tokens.weight'' = None"
      by (simp add: map_of_eq_None_iff)
    moreover from True s1 have "map_of (nemo_weights st1) ''enc_dec_model.decoder_embedding.word_embeddings.weight'' = Some v"
      by (auto simp: step_decoder_embed update_conv')
    ultimately show ?thesis using ih kv True by simp
  next
    case False
    from step_keeps_decoder_embedding [OF False s1] ih kv False show ?thesis
      by (simp split: option.split)
  qed
qed

text \<open>
  C9. Handling \<open>lm_head.weight\<close> makes one assignment, to
  \<open>enc_dec_model.tokens_head.weight\<close>, although its progress line names the decoder word
  embedding too. No key other than \<open>decoder.embed_tokens.weight\<close> changes the decoder word
  embedding entry, and after a whole pass that entry is the tensor of
  \<open>decoder.embed_tokens.weight\<close>, or missing when the source has no such key.
\<close>

theorem lm_head_writes_tokens_head_only:
  "convert_weights_step hf ''lm_head.weight'' v st =
     Inr (st\<lparr>nemo_weights :=
                AList.update ''enc_dec_model.tokens_head.weight'' v (nemo_weights st),
            stdout := stdout st @
                [''Mapped lm_head.weight to enc_dec_model.decoder_embedding.word_embeddings.weight and enc_dec_model.tokens_head.weight'']\<rparr>) \<and>
   (\<forall>k st'. k \<noteq> ''decoder.embed_tokens.weight'' \<and> convert_weights_step hf k v st = Inr st' \<longrightarrow>
      map_of (nemo_weights st') ''enc_dec_model.decoder_embedding.word_embeddings.weight''
        = map_of (nemo_weights st) ''enc_dec_model.decoder_embedding.word_embeddings.weight'') \<and>
   (\<forall>path out. distinct (map fst hf) \<and> convert_weights hf path = Inr out \<longrightarrow>
      map_of (nemo_weights out) ''enc_dec_model.decoder_embedding.word_embeddings.weight''
        = map_of hf ''decoder.embed_tokens.weight'')"
proof (intro conjI allI impI)
  show "convert_weights_step hf ''lm_head.weight'' v st =
     Inr (st\<lparr>nemo_weights :=
                AList.update ''enc_dec_model.tokens_head.weight'' v (nemo_weights st),
            stdout := stdout st @
                [''Mapped lm_head.weight to enc_dec_model.decoder_embedding.word_embeddings.weight and enc_dec_model.tokens_head.weight'']\<rparr>)"
    by (rule step_lm_head)
next
  fix k st'
  assume "k \<noteq> ''decoder.embed_tokens.weight'' \<and> convert_weights_step hf k v st = Inr st'"
  then show "map_of (nemo_weights st') ''enc_dec_model.decoder_embedding.word_embeddings.weight''
        = map_of (nemo_weights st) ''enc_dec_model.decoder_embedding.word_embeddings.weight''"
    using step_keeps_decoder_embedding by blast
next
  fix path out
  assume a: "distinct (map fst hf) \<and> convert_weights hf path = Inr out"
  then obtain st1 where l: "convert_weights_loop hf hf
             \<lparr>nemo_weights = [],
              stdout = [''Found '' @ py_str (int (length hf)) @ '' keys in the checkpoint'']\<rparr> = Inr st1"
    and out: "out = py_print (''Saved weights to '' @ path) st1"
    by (auto simp: convert_weights_def split: sum.splits)
  from loop_decoder_embedding [OF l] a out
  show "map_of (nemo_weights out) ''enc_dec_model.decoder_embedding.word_embeddings.weight''
        = map_of hf ''decoder.embed_tokens.weight''"
    by (simp add: py_print_def split: option.split)
qed

theorem lm_head_writes_tokens_head_only_witness:
  "convert_weights
     [(''lm_head.weight'', Tensor [1] [1::nat]), (''decoder.embed_tokens.weight'', Tensor [1] [2])]
     ''out.pt'' =
   Inr \<lparr>nemo_weights =
          [(''enc_dec_model.tokens_head.weight'', Tensor [1] [1]),
           (''enc_dec_model.decoder_embedding.word_embeddings.weight'', Tensor [1] [2])],
        stdout =
          [''Found 2 keys in the checkpoint'',
           ''Mapped lm_head.weight to enc_dec_model.decoder_embedding.word_embeddings.weight and enc_dec_model.tokens_head.weight'',
           ''Saved weights to out.pt'']\<rparr> \<and>
   map_of [(''enc_dec_model.tokens_head.weight'', Tensor [1] [1::nat]),
           (''enc_dec_model.decoder_embedding.word_embeddings.weight'', Tensor [1] [2])]
     ''enc_dec_model.decoder_embedding.word_embeddings.weight'' = Some (Tensor [1] [2])"
proof -
  let ?hf = "[(''lm_head.weight'', Tensor [1] [1::nat]), (''decoder.embed_tokens.weight'', Tensor [1] [2])]"
  let ?out = "\<lparr>nemo_weights =
          [(''enc_dec_model.tokens_head.weight'', Tensor [1] [1::nat]),
           (''enc_dec_model.decoder_embedding.word_embeddings.weight'', Tensor [1] [2])],
        stdout =
          [''Found 2 keys in the checkpoint'',
           ''Mapped lm_head.weight to enc_dec_model.decoder_embedding.word_embeddings.weight and enc_dec_model.tokens_head.weight'',
           ''Saved weights to out.pt'']\<rparr>"
  have run: "convert_weights ?hf ''out.pt'' = Inr ?out"
    by code_simp
  have d: "distinct (map fst ?hf)" by simp
  from lm_head_writes_tokens_head_only [of ?hf "Tensor [1] [1]" "\<lparr>nemo_weights = [], stdout = []\<rparr>"] run d
  have "map_of (nemo_weights ?out) ''enc_dec_model.decoder_embedding.word_embeddings.weight''
        = map_of ?hf ''decoder.embed_tokens.weight''"
    by blast
  with run show ?thesis by simp
qed

subsection \<open>Relative position bias\<close>

text \<open>
  C10. The relative position bias is recognized at block 0, sub-layer 0 only: those two
  keys are renamed to the encoder and decoder relative position embeddings. The same key
  at any other block or sub-layer index matches no rule and raises
  \<open>Unknown key\<close> with the key.
\<close>

theorem relative_bias_only_at_block_0:
  "convert_weights_step hf
     ''encoder.block.0.layer.0.SelfAttention.relative_attention_bias.weight'' v st =
     Inr (mapped ''encoder.block.0.layer.0.SelfAttention.relative_attention_bias.weight''
       ''enc_dec_model.encoder_relative_position_embedding.relative_position_embedding.weight''
       v st) \<and>
   convert_weights_step hf
     ''decoder.block.0.layer.0.SelfAttention.relative_attention_bias.weight'' v st =
     Inr (mapped ''decoder.block.0.layer.0.SelfAttention.relative_attention_bias.weight''
       ''enc_dec_model.decoder_relative_position_embedding.relative_position_embedding.weight''
       v st) \<and>
   (\<forall>r n l. n \<noteq> 0 \<or> l \<noteq> 0 \<longrightarrow>
      rule_of (block_key (root_name r) n l ''.SelfAttention.relative_attention_bias.weight'')
        = No_rule \<and>
      convert_weights_step hf
        (block_key (root_name r) n l ''.SelfAttention.relative_attention_bias.weight'') v st =
        Inl (ValueError (''Unknown key: '' @
          block_key (root_name r) n l ''.SelfAttention.relative_attention_bias.weight'')))"
proof (intro conjI allI impI)
  fix r n l
  assume a: "n \<noteq> (0::nat) \<or> l \<noteq> (0::nat)"
  show "rule_of (block_key (root_name r) n l ''.SelfAttention.relative_attention_bias.weight'')
        = No_rule"
    by (rule rule_of_rel_bias_elsewhere [OF a])
  then show "convert_weights_step hf
        (block_key (root_name r) n l ''.SelfAttention.relative_attention_bias.weight'') v st =
        Inl (ValueError (''Unknown key: '' @
          block_key (root_name r) n l ''.SelfAttention.relative_attention_bias.weight''))"
    by (rule step_no_rule)
qed (simp_all add: convert_weights_step_def)

theorem relative_bias_only_at_block_0_witness:
  "convert_weights_step []
     ''encoder.block.1.layer.0.SelfAttention.relative_attention_bias.weight''
     (Tensor [1] [0::nat]) \<lparr>nemo_weights = [], stdout = []\<rparr> =
   Inl (ValueError
     ''Unknown key: encoder.block.1.layer.0.SelfAttention.relative_attention_bias.weight'')"
proof -
  have k: "block_key (root_name Encoder) 1 0 ''.SelfAttention.relative_attention_bias.weight''
        = ''encoder.block.1.layer.0.SelfAttention.relative_attention_bias.weight''"
    by code_simp
  note w = relative_bias_only_at_block_0 [of "[]" "Tensor [1] [0::nat]"
      "\<lparr>nemo_weights = [], stdout = []\<rparr>", THEN conjunct2, THEN conjunct2,
      rule_format, where n = 1 and l = 0 and r = Encoder]
  from w k show ?thesis by simp
qed

subsection \<open>Layer normalization\<close>

text \<open>
  C7. A layer normalization key is classified by its root module and sub-layer index:
  encoder 0 and decoder 0 give \<open>input_layernorm\<close>, encoder 1 and decoder 1 give
  \<open>post_attention_layernorm\<close>, decoder 2 gives \<open>post_inter_attention_layernorm\<close>, the
  final normalization of a module gives that module's \<open>final_layernorm\<close>, and every other
  combination of module and index raises \<open>Unknown layer_norm key\<close> with the key.
\<close>

theorem layer_norm_classification:
  "convert_weights_step hf (block_key ''encoder'' n 0 ''.layer_norm.weight'') v st =
     Inr (mapped (block_key ''encoder'' n 0 ''.layer_norm.weight'')
            (layer_key ''encoder'' (int n) ''.input_layernorm.weight'') v st) \<and>
   convert_weights_step hf (block_key ''encoder'' n 1 ''.layer_norm.weight'') v st =
     Inr (mapped (block_key ''encoder'' n 1 ''.layer_norm.weight'')
            (layer_key ''encoder'' (int n) ''.post_attention_layernorm.weight'') v st) \<and>
   convert_weights_step hf (block_key ''decoder'' n 0 ''.layer_norm.weight'') v st =
     Inr (mapped (block_key ''decoder'' n 0 ''.layer_norm.weight'')
            (layer_key ''decoder'' (int n) ''.input_layernorm.weight'') v st) \<and>
   convert_weights_step hf (block_key ''decoder'' n 1 ''.layer_norm.weight'') v st =
     Inr (mapped (block_key ''decoder'' n 1 ''.layer_norm.weight'')
            (layer_key ''decoder'' (int n) ''.post_attention_layernorm.weight'') v st) \<and>
   convert_weights_step hf (block_key ''decoder'' n 2 ''.layer_norm.weight'') v st =
     Inr (mapped (block_key ''decoder'' n 2 ''.layer_norm.weight'')
            (layer_key ''decoder'' (int n) ''.post_inter_attention_layernorm.weight'') v st) \<and>
   convert_weights_step hf ''encoder.final_layer_norm.weight'' v st =
     Inr (mapped ''encoder.final_layer_norm.weight''
            ''enc_dec_model.enc_dec_model.encoder.model.final_layernorm.weight'' v st) \<and>
   convert_weights_step hf ''decoder.final_layer_norm.weight'' v st =
     Inr (mapped ''decoder.final_layer_norm.weight''
            ''enc_dec_model.enc_dec_model.decoder.model.final_layernorm.weight'' v st) \<and>
   (\<forall>r l. \<not> ((r = Encoder \<and> l < 2) \<or> (r = Decoder \<and> l < 3)) \<longrightarrow>
      convert_weights_step hf (block_key (root_name r) n l ''.layer_norm.weight'') v st =
        Inl (ValueError (''Unknown layer_norm key: ''
               @ block_key (root_name r) n l ''.layer_norm.weight'')))"
proof -
  note e = step_norm_block [of hf Encoder n _ v st, simplified]
  note d = step_norm_block [of hf Decoder n _ v st, simplified]
  have "\<forall>r l. \<not> ((r = Encoder \<and> l < 2) \<or> (r = Decoder \<and> l < 3)) \<longrightarrow>
      convert_weights_step hf (block_key (root_name r) n l ''.layer_norm.weight'') v st =
        Inl (ValueError (''Unknown layer_norm key: ''
               @ block_key (root_name r) n l ''.layer_norm.weight''))"
    by (simp add: step_norm_block)
  moreover have "convert_weights_step hf ''encoder.final_layer_norm.weight'' v st =
     Inr (mapped ''encoder.final_layer_norm.weight''
            ''enc_dec_model.enc_dec_model.encoder.model.final_layernorm.weight'' v st)"
    using step_final_norm [of hf Encoder v st] by (simp add: final_key_def)
  moreover have "convert_weights_step hf ''decoder.final_layer_norm.weight'' v st =
     Inr (mapped ''decoder.final_layer_norm.weight''
            ''enc_dec_model.enc_dec_model.decoder.model.final_layernorm.weight'' v st)"
    using step_final_norm [of hf Decoder v st] by (simp add: final_key_def)
  ultimately show ?thesis
    using e [of 0] e [of 1] d [of 0] d [of 1] d [of 2] by simp
qed

theorem layer_norm_classification_witness:
  "convert_weights_step [] ''encoder.block.0.layer.2.layer_norm.weight''
     (Tensor [1] [0::nat]) \<lparr>nemo_weights = [], stdout = []\<rparr> =
     Inl (ValueError ''Unknown layer_norm key: encoder.block.0.layer.2.layer_norm.weight'')"
proof -
  have k: "block_key (root_name Encoder) 0 2 ''.layer_norm.weight''
        = ''encoder.block.0.layer.2.layer_norm.weight''"
    by code_simp
  note w = layer_norm_classification [of "[]" 0 "Tensor [1] [0::nat]"
      "\<lparr>nemo_weights = [], stdout = []\<rparr>", THEN conjunct2, THEN conjunct2,
      THEN conjunct2, THEN conjunct2, THEN conjunct2, THEN conjunct2, THEN conjunct2,
      rule_format, where r = Encoder and l = 2]
  from w k show ?thesis by simp
qed

subsection \<open>Self-attention fusion\<close>

text \<open>
  C1. For a self-attention query key \<open><root>.block.<n>.layer.<l>.SelfAttention.q.weight\<close>
  whose key and value siblings are in the checkpoint, all three tensors of shape
  \<open>(H, H)\<close>, one iteration assigns a single tensor of shape \<open>(3H, H)\<close> to
  \<open>enc_dec_model.enc_dec_model.<root>.model.layers.<n>.self_attention.query_key_value.weight\<close>:
  rows \<open>[0, H)\<close> are the query tensor, rows \<open>[H, 2H)\<close> the key tensor and rows
  \<open>[2H, 3H)\<close> the value tensor. The iterations of the two sibling keys leave the state as
  it is.
\<close>

theorem self_attention_fusion:
  assumes "map_of hf (block_key (root_name r) n l ''.SelfAttention.k.weight'') = Some kt"
    and "map_of hf (block_key (root_name r) n l ''.SelfAttention.v.weight'') = Some vt"
    and "shape q = [H, H]" "shape kt = [H, H]" "shape vt = [H, H]"
    and "wf_tensor q" "wf_tensor kt" "wf_tensor vt"
  shows "\<exists>fused.
     convert_weights_step hf (block_key (root_name r) n l ''.SelfAttention.q.weight'') q st =
       Inr (mapped (block_key (root_name r) n l ''.SelfAttention.q.weight'')
              (''enc_dec_model.enc_dec_model.'' @ root_name r @ ''.model.layers.'' @ dec_nat n
                 @ ''.self_attention.query_key_value.weight'')
              fused st) \<and>
     shape fused = [3 * H, H] \<and>
     rows fused 0 H = q \<and> rows fused H (2 * H) = kt \<and> rows fused (2 * H) (3 * H) = vt \<and>
     convert_weights_step hf (block_key (root_name r) n l ''.SelfAttention.k.weight'') kt st
       = Inr st \<and>
     convert_weights_step hf (block_key (root_name r) n l ''.SelfAttention.v.weight'') vt st
       = Inr st"
proof -
  let ?k = "block_key (root_name r) n l ''.SelfAttention.q.weight''"
  let ?fused = "Tensor [3 * H, H] (elems q @ elems kt @ elems vt)"
  have "rule_of ?k = Self_qkv"
    using rule_of_block [of r n l SelfQ] by simp
  note s = step_self_qkv [OF this, of hf q st]
  have g: "get_model_type_block_layer ?k = Inr (root_name r, int n, int l)"
    by (rule gmtbl_block)
  have c: "torch_cat [q, kt, vt] = Inr ?fused"
    using assms(3-5) by (rule torch_cat_3)
  have "convert_weights_step hf ?k q st =
       Inr (mapped ?k (layer_key (root_name r) (int n) ''.self_attention.query_key_value.weight'')
              ?fused st)"
    unfolding s g replace_self_q_k replace_self_q_v
    using assms(1,2) c by (simp add: getitem_def)
  then have 1: "convert_weights_step hf ?k q st =
       Inr (mapped ?k
              (''enc_dec_model.enc_dec_model.'' @ root_name r @ ''.model.layers.'' @ dec_nat n
                 @ ''.self_attention.query_key_value.weight'')
              ?fused st)"
    by (simp add: layer_key_def py_str_nat)
  have 2: "rows ?fused 0 H = q"
    using assms(6,3) by (rule rows_first)
  have 3: "rows ?fused H (2 * H) = kt"
    using assms(6,3,7,4) by (rule rows_second)
  have 4: "rows ?fused (2 * H) (3 * H) = vt"
    using assms(6,3,7,4,8,5) by (rule rows_third)
  have "rule_of (block_key (root_name r) n l ''.SelfAttention.k.weight'') = Self_kv_skip"
    using rule_of_block [of r n l SelfK] by simp
  then have 5: "convert_weights_step hf (block_key (root_name r) n l ''.SelfAttention.k.weight'')
      kt st = Inr st"
    by (rule step_self_kv_skip)
  have "rule_of (block_key (root_name r) n l ''.SelfAttention.v.weight'') = Self_kv_skip"
    using rule_of_block [of r n l SelfV] by simp
  then have 6: "convert_weights_step hf (block_key (root_name r) n l ''.SelfAttention.v.weight'')
      vt st = Inr st"
    by (rule step_self_kv_skip)
  from 1 2 3 4 5 6 show ?thesis
    by (intro exI [of _ ?fused]) simp
qed

theorem self_attention_fusion_witness:
  "\<exists>fused.
     convert_weights_step
       [(''encoder.block.0.layer.0.SelfAttention.q.weight'', Tensor [2, 2] [1, 1, 1, 1::nat]),
        (''encoder.block.0.layer.0.SelfAttention.k.weight'', Tensor [2, 2] [2, 2, 2, 2]),
        (''encoder.block.0.layer.0.SelfAttention.v.weight'', Tensor [2, 2] [3, 3, 3, 3])]
       ''encoder.block.0.layer.0.SelfAttention.q.weight'' (Tensor [2, 2] [1, 1, 1, 1])
       \<lparr>nemo_weights = [], stdout = []\<rparr> =
       Inr (mapped ''encoder.block.0.layer.0.SelfAttention.q.weight''
              ''enc_dec_model.enc_dec_model.encoder.model.layers.0.self_attention.query_key_value.weight''
              fused \<lparr>nemo_weights = [], stdout = []\<rparr>) \<and>
     shape fused = [6, 2] \<and>
     rows fused 0 2 = Tensor [2, 2] [1, 1, 1, 1] \<and>
     rows fused 2 4 = Tensor [2, 2] [2, 2, 2, 2] \<and>
     rows fused 4 6 = Tensor [2, 2] [3, 3, 3, 3] \<and>
     convert_weights_step
       [(''encoder.block.0.layer.0.SelfAttention.q.weight'', Tensor [2, 2] [1, 1, 1, 1::nat]),
        (''encoder.block.0.layer.0.SelfAttention.k.weight'', Tensor [2, 2] [2, 2, 2, 2]),
        (''encoder.block.0.layer.0.SelfAttention.v.weight'', Tensor [2, 2] [3, 3, 3, 3])]
       ''encoder.block.0.layer.0.SelfAttention.k.weight'' (Tensor [2, 2] [2, 2, 2, 2])
       \<lparr>nemo_weights = [], stdout = []\<rparr> = Inr \<lparr>nemo_weights = [], stdout = []\<rparr> \<and>
     convert_weights_step
       [(''encoder.block.0.layer.0.SelfAttention.q.weight'', Tensor [2, 2] [1, 1, 1, 1::nat]),
        (''encoder.block.0.layer.0.SelfAttention.k.weight'', Tensor [2, 2] [2, 2, 2, 2]),
        (''encoder.block.0.layer.0.SelfAttention.v.weight'', Tensor [2, 2] [3, 3, 3, 3])]
       ''encoder.block.0.layer.0.SelfAttention.v.weight'' (Tensor [2, 2] [3, 3, 3, 3])
       \<lparr>nemo_weights = [], stdout = []\<rparr> = Inr \<lparr>nemo_weights = [], stdout = []\<rparr>"
proof -
  let ?hf = "[(''encoder.block.0.layer.0.SelfAttention.q.weight'', Tensor [2, 2] [1, 1, 1, 1::nat]),
        (''encoder.block.0.layer.0.SelfAttention.k.weight'', Tensor [2, 2] [2, 2, 2, 2]),
        (''encoder.block.0.layer.0.SelfAttention.v.weight'', Tensor [2, 2] [3, 3, 3, 3])]"
  have q: "block_key (root_name Encoder) 0 0 ''.SelfAttention.q.weight''
             = ''encoder.block.0.layer.0.SelfAttention.q.weight''"
    and k: "block_key (root_name Encoder) 0 0 ''.SelfAttention.k.weight''
             = ''encoder.block.0.layer.0.SelfAttention.k.weight''"
    and v: "block_key (root_name Encoder) 0 0 ''.SelfAttention.v.weight''
             = ''encoder.block.0.layer.0.SelfAttention.v.weight''"
    by code_simp+
  have 1: "map_of ?hf (block_key (root_name Encoder) 0 0 ''.SelfAttention.k.weight'')
             = Some (Tensor [2, 2] [2, 2, 2, 2])"
    unfolding k by simp
  have 2: "map_of ?hf (block_key (root_name Encoder) 0 0 ''.SelfAttention.v.weight'')
             = Some (Tensor [2, 2] [3, 3, 3, 3])"
    unfolding v by simp
  have 3: "shape (Tensor [2, 2] [1, 1, 1, 1::nat]) = [2, 2]"
    "shape (Tensor [2, 2] [2, 2, 2, 2::nat]) = [2, 2]"
    "shape (Tensor [2, 2] [3, 3, 3, 3::nat]) = [2, 2]"
    by simp_all
  have 4: "wf_tensor (Tensor [2, 2] [1, 1, 1, 1::nat])"
    "wf_tensor (Tensor [2, 2] [2, 2, 2, 2::nat])"
    "wf_tensor (Tensor [2, 2] [3, 3, 3, 3::nat])"
    by (simp_all add: wf_tensor_def)
  from self_attention_fusion [OF 1 2 3 4, of "\<lparr>nemo_weights = [], stdout = []\<rparr>"]
  show ?thesis
    unfolding q k v by (simp add: dec_nat_0)
qed

subsection \<open>Cross-attention fusion\<close>

text \<open>
  C4. For a cross-attention key \<open>decoder.block.<n>.layer.<l>.EncDecAttention.k.weight\<close>
  whose value sibling is in the checkpoint, both tensors of shape \<open>(H, H)\<close>, one iteration
  assigns a single tensor of shape \<open>(2H, H)\<close> to
  \<open>enc_dec_model.enc_dec_model.decoder.model.layers.<n>.inter_attention.key_value.weight\<close>:
  rows \<open>[0, H)\<close> are the key tensor and rows \<open>[H, 2H)\<close> the value tensor. The
  cross-attention query key is renamed to \<open>inter_attention.query.weight\<close> with its own
  tensor, unfused.
\<close>

theorem cross_attention_fusion:
  assumes "map_of hf (block_key ''decoder'' n l ''.EncDecAttention.v.weight'') = Some vt"
    and "shape kt = [H, H]" "shape vt = [H, H]"
    and "wf_tensor kt" "wf_tensor vt"
  shows "\<exists>fused.
     convert_weights_step hf (block_key ''decoder'' n l ''.EncDecAttention.k.weight'') kt st =
       Inr (mapped (block_key ''decoder'' n l ''.EncDecAttention.k.weight'')
              (''enc_dec_model.enc_dec_model.decoder.model.layers.'' @ dec_nat n
                 @ ''.inter_attention.key_value.weight'')
              fused st) \<and>
     shape fused = [2 * H, H] \<and>
     rows fused 0 H = kt \<and> rows fused H (2 * H) = vt \<and>
     convert_weights_step hf (block_key ''decoder'' n l ''.EncDecAttention.q.weight'') qt st =
       Inr (mapped (block_key ''decoder'' n l ''.EncDecAttention.q.weight'')
              (''enc_dec_model.enc_dec_model.decoder.model.layers.'' @ dec_nat n
                 @ ''.inter_attention.query.weight'')
              qt st)"
proof -
  let ?k = "block_key (root_name Decoder) n l ''.EncDecAttention.k.weight''"
  let ?q = "block_key (root_name Decoder) n l ''.EncDecAttention.q.weight''"
  let ?fused = "Tensor [2 * H, H] (elems kt @ elems vt @ [])"
  have "rule_of ?k = Cross_kv"
    using rule_of_block [of Decoder n l CrossK] by simp
  note s = step_cross_kv [OF this, of hf kt st]
  have g: "get_model_type_block_layer ?k = Inr (root_name Decoder, int n, int l)"
    by (rule gmtbl_block)
  have c: "torch_cat [kt, vt] = Inr ?fused"
    using torch_cat_2 [OF assms(2,3)] by simp
  have sib: "map_of hf (block_key (root_name Decoder) n l ''.EncDecAttention.v.weight'')
      = Some vt"
    using assms(1) by simp
  have "convert_weights_step hf ?k kt st =
       Inr (mapped ?k (layer_key ''decoder'' (int n) ''.inter_attention.key_value.weight'')
              ?fused st)"
    unfolding s g replace_cross_k_v
    using sib c by (simp add: getitem_def)
  then have 1: "convert_weights_step hf ?k kt st =
       Inr (mapped ?k
              (''enc_dec_model.enc_dec_model.decoder.model.layers.'' @ dec_nat n
                 @ ''.inter_attention.key_value.weight'')
              ?fused st)"
    by (simp add: layer_key_def py_str_nat)
  have 2: "rows ?fused 0 H = kt"
    using assms(4,2) by (rule rows_first)
  have 3: "rows ?fused H (2 * H) = vt"
    using assms(4,2,5,3) by (rule rows_second)
  have "rule_of ?q = Cross_q"
    using rule_of_block [of Decoder n l CrossQ] by simp
  note sq = step_cross_q [OF this, of hf qt st]
  have gq: "get_model_type_block_layer ?q = Inr (root_name Decoder, int n, int l)"
    by (rule gmtbl_block)
  have 4: "convert_weights_step hf ?q qt st =
       Inr (mapped ?q
              (''enc_dec_model.enc_dec_model.decoder.model.layers.'' @ dec_nat n
                 @ ''.inter_attention.query.weight'')
              qt st)"
    unfolding sq gq by (simp add: layer_key_def py_str_nat)
  from 1 2 3 4 show ?thesis
    by (intro exI [of _ ?fused]) simp
qed

theorem cross_attention_fusion_witness:
  "\<exists>fused.
     convert_weights_step
       [(''decoder.block.3.layer.1.EncDecAttention.k.weight'', Tensor [2, 2] [1, 1, 1, 1::nat]),
        (''decoder.block.3.layer.1.EncDecAttention.v.weight'', Tensor [2, 2] [2, 2, 2, 2])]
       ''decoder.block.3.layer.1.EncDecAttention.k.weight'' (Tensor [2, 2] [1, 1, 1, 1])
       \<lparr>nemo_weights = [], stdout = []\<rparr> =
       Inr (mapped ''decoder.block.3.layer.1.EncDecAttention.k.weight''
              ''enc_dec_model.enc_dec_model.decoder.model.layers.3.inter_attention.key_value.weight''
              fused \<lparr>nemo_weights = [], stdout = []\<rparr>) \<and>
     shape fused = [4, 2] \<and>
     rows fused 0 2 = Tensor [2, 2] [1, 1, 1, 1] \<and>
     rows fused 2 4 = Tensor [2, 2] [2, 2, 2, 2] \<and>
     convert_weights_step
       [(''decoder.block.3.layer.1.EncDecAttention.k.weight'', Tensor [2, 2] [1, 1, 1, 1::nat]),
        (''decoder.block.3.layer.1.EncDecAttention.v.weight'', Tensor [2, 2] [2, 2, 2, 2])]
       ''decoder.block.3.layer.1.EncDecAttention.q.weight'' (Tensor [2, 2] [5, 5, 5, 5])
       \<lparr>nemo_weights = [], stdout = []\<rparr> =
       Inr (mapped ''decoder.block.3.layer.1.EncDecAttention.q.weight''
              ''enc_dec_model.enc_dec_model.decoder.model.layers.3.inter_attention.query.weight''
              (Tensor [2, 2] [5, 5, 5, 5]) \<lparr>nemo_weights = [], stdout = []\<rparr>)"
proof -
  let ?hf = "[(''decoder.block.3.layer.1.EncDecAttention.k.weight'', Tensor [2, 2] [1, 1, 1, 1::nat]),
        (''decoder.block.3.layer.1.EncDecAttention.v.weight'', Tensor [2, 2] [2, 2, 2, 2])]"
  have k: "block_key ''decoder'' 3 1 ''.EncDecAttention.k.weight''
             = ''decoder.block.3.layer.1.EncDecAttention.k.weight''"
    and v: "block_key ''decoder'' 3 1 ''.EncDecAttention.v.weight''
             = ''decoder.block.3.layer.1.EncDecAttention.v.weight''"
    and q: "block_key ''decoder'' 3 1 ''.EncDecAttention.q.weight''
             = ''decoder.block.3.layer.1.EncDecAttention.q.weight''"
    and n: "dec_nat 3 = ''3''"
    by code_simp+
  have 1: "map_of ?hf (block_key ''decoder'' 3 1 ''.EncDecAttention.v.weight'')
             = Some (Tensor [2, 2] [2, 2, 2, 2])"
    unfolding v by simp
  have 2: "shape (Tensor [2, 2] [1, 1, 1, 1::nat]) = [2, 2]"
    "shape (Tensor [2, 2] [2, 2, 2, 2::nat]) = [2, 2]"
    by simp_all
  have 3: "wf_tensor (Tensor [2, 2] [1, 1, 1, 1::nat])"
    "wf_tensor (Tensor [2, 2] [2, 2, 2, 2::nat])"
    by (simp_all add: wf_tensor_def)
  from cross_attention_fusion [OF 1 2 3, of "\<lparr>nemo_weights = [], stdout = []\<rparr>"
      "Tensor [2, 2] [5, 5, 5, 5]"]
  show ?thesis
    unfolding k q n by simp
qed

subsection \<open>Missing siblings\<close>

lemma not_literal:
  assumes "py_in p k" "\<not> py_in p lit"
  shows "k \<noteq> lit"
  using assms by auto

lemma rule_of_self_q:
  assumes "py_in ''SelfAttention.q.weight'' k"
  shows "rule_of k = Self_qkv"
proof -
  note n = not_literal [OF assms]
  have "k \<noteq> ''shared.weight''" by (rule n) (simp add: py_in_eval)
  moreover have "k \<noteq> ''lm_head.weight''" by (rule n) (simp add: py_in_eval)
  moreover have "k \<noteq> ''decoder.embed_tokens.weight''" by (rule n) (simp add: py_in_eval)
  moreover have "k \<noteq> ''encoder.embed_tokens.weight''" by (rule n) (simp add: py_in_eval)
  moreover have "k \<noteq> ''encoder.block.0.layer.0.SelfAttention.relative_attention_bias.weight''"
    by (rule n) (simp add: py_in_eval)
  moreover have "k \<noteq> ''decoder.block.0.layer.0.SelfAttention.relative_attention_bias.weight''"
    by (rule n) (simp add: py_in_eval)
  ultimately show ?thesis using assms by (simp add: rule_of_def)
qed

lemma step_self_qkv_missing:
  assumes "rule_of k = Self_qkv"
    and "map_of hf (py_replace ''q.weight'' ''k.weight'' k) = None \<or>
         map_of hf (py_replace ''q.weight'' ''v.weight'' k) = None"
  shows "\<exists>e. convert_weights_step hf k v st = Inl e"
proof (cases "get_model_type_block_layer k")
  case (Inl e)
  then show ?thesis unfolding step_self_qkv [OF assms(1)] by simp
next
  case (Inr p)
  obtain mt b l where p: "p = (mt, b, l)" by (cases p)
  show ?thesis
  proof (cases "map_of hf (py_replace ''q.weight'' ''k.weight'' k)")
    case None
    with Inr p show ?thesis
      unfolding step_self_qkv [OF assms(1)] by (simp add: getitem_def)
  next
    case (Some kt)
    with assms(2) have "map_of hf (py_replace ''q.weight'' ''v.weight'' k) = None" by simp
    with Inr p Some show ?thesis
      unfolding step_self_qkv [OF assms(1)] by (simp add: getitem_def)
  qed
qed

lemma step_cross_kv_missing:
  assumes "rule_of k = Cross_kv"
    and "map_of hf (py_replace ''k.weight'' ''v.weight'' k) = None"
  shows "\<exists>e. convert_weights_step hf k v st = Inl e"
proof (cases "get_model_type_block_layer k")
  case (Inl e)
  then show ?thesis unfolding step_cross_kv [OF assms(1)] by simp
next
  case (Inr p)
  obtain mt b l where p: "p = (mt, b, l)" by (cases p)
  with Inr assms(2) show ?thesis
    unfolding step_cross_kv [OF assms(1)] by (simp add: getitem_def)
qed

text \<open>
  C5. When the checkpoint holds a key containing \<open>SelfAttention.q.weight\<close> but not the
  key or the value sibling that \<open>replace\<close> derives from it, or a key dispatched to the
  cross-attention fusion rule but not its value sibling, the iteration of that key raises
  in every state, so it assigns no fused tensor, and the whole run raises.
\<close>

theorem missing_sibling_aborts:
  assumes "(k, v) \<in> set hf"
    and "(py_in ''SelfAttention.q.weight'' k \<and>
            (map_of hf (py_replace ''q.weight'' ''k.weight'' k) = None \<or>
             map_of hf (py_replace ''q.weight'' ''v.weight'' k) = None)) \<or>
         (rule_of k = Cross_kv \<and> map_of hf (py_replace ''k.weight'' ''v.weight'' k) = None)"
  shows "(\<forall>st. \<exists>e. convert_weights_step hf k v st = Inl e) \<and>
         (\<exists>e. convert_weights hf path = Inl e)"
proof -
  have s: "\<exists>e. convert_weights_step hf k v st = Inl e" for st
    using assms(2) step_self_qkv_missing [of k hf v st] step_cross_kv_missing [of k hf v st]
      rule_of_self_q [of k]
    by blast
  then obtain e where "step_write hf k v = Inl e"
    using step_write_Inl [of hf k v] by blast
  from convert_weights_fails [OF assms(1) this] s show ?thesis by blast
qed

theorem missing_sibling_aborts_witness:
  "(\<forall>st. \<exists>e. convert_weights_step
       [(''encoder.block.0.layer.0.SelfAttention.q.weight'', Tensor [1, 1] [1::nat]),
        (''encoder.block.0.layer.0.SelfAttention.v.weight'', Tensor [1, 1] [3])]
       ''encoder.block.0.layer.0.SelfAttention.q.weight'' (Tensor [1, 1] [1]) st = Inl e) \<and>
   (\<exists>e. convert_weights
       [(''encoder.block.0.layer.0.SelfAttention.q.weight'', Tensor [1, 1] [1::nat]),
        (''encoder.block.0.layer.0.SelfAttention.v.weight'', Tensor [1, 1] [3])]
       ''out.pt'' = Inl e)"
proof -
  let ?hf = "[(''encoder.block.0.layer.0.SelfAttention.q.weight'', Tensor [1, 1] [1::nat]),
      (''encoder.block.0.layer.0.SelfAttention.v.weight'', Tensor [1, 1] [3])]"
  let ?k = "''encoder.block.0.layer.0.SelfAttention.q.weight''"
  have 1: "(?k, Tensor [1, 1] [1::nat]) \<in> set ?hf" by simp
  have a: "py_in ''SelfAttention.q.weight'' ?k" by (simp add: py_in_eval)
  have b: "map_of ?hf (py_replace ''q.weight'' ''k.weight'' ?k) = None" by code_simp
  from a b have 2: "(py_in ''SelfAttention.q.weight'' ?k \<and>
            (map_of ?hf (py_replace ''q.weight'' ''k.weight'' ?k) = None \<or>
             map_of ?hf (py_replace ''q.weight'' ''v.weight'' ?k) = None)) \<or>
         (rule_of ?k = Cross_kv \<and> map_of ?hf (py_replace ''k.weight'' ''v.weight'' ?k) = None)"
    by (intro disjI1 conjI)
  show ?thesis by (rule missing_sibling_aborts [OF 1 2])
qed

subsection \<open>Unknown keys\<close>

text \<open>
  C3, as stated, fails: the loop stops at the first iteration that raises, so a checkpoint
  whose earlier entry raises for another reason halts with that entry's message, which
  need not contain the unknown key.
\<close>

theorem unknown_key_message_counterexample:
  "rule_of ''encoder.block.0.layer.0.SelfAttention.unexpected.weight'' = No_rule \<and>
   convert_weights
     [(''encoder.block.0.layer.2.layer_norm.weight'', Tensor [1] [0::nat]),
      (''encoder.block.0.layer.0.SelfAttention.unexpected.weight'', Tensor [1] [0])]
     ''out.pt''
     = Inl (ValueError ''Unknown layer_norm key: encoder.block.0.layer.2.layer_norm.weight'') \<and>
   \<not> py_in ''encoder.block.0.layer.0.SelfAttention.unexpected.weight''
       (message
          (ValueError ''Unknown layer_norm key: encoder.block.0.layer.2.layer_norm.weight''))"
  by code_simp

text \<open>
  C3, amended. A checkpoint that holds a key matched by no rule makes the run raise, so
  nothing is saved. When every entry enumerated before that key is handled without an
  exception, the run raises \<open>Unknown key\<close> followed by that key, and the message contains
  the key.
\<close>

theorem unknown_key_aborts:
  assumes "(k, v) \<in> set hf" and "rule_of k = No_rule"
  shows "(\<exists>e. convert_weights hf path = Inl e) \<and>
         (\<forall>pre post. hf = pre @ (k, v) # post \<and>
              (\<forall>(k', v') \<in> set pre. \<exists>ws. step_write hf k' v' = Inr ws) \<longrightarrow>
            convert_weights hf path = Inl (ValueError (''Unknown key: '' @ k)) \<and>
            py_in k (message (ValueError (''Unknown key: '' @ k))))"
proof -
  have "convert_weights_step hf k v st = Inl (ValueError (''Unknown key: '' @ k))" for st
    using assms(2) by (rule step_no_rule)
  then have w: "step_write hf k v = Inl (ValueError (''Unknown key: '' @ k))"
    using step_write_Inl [of hf k v] by blast
  have m: "py_in k (message (ValueError (''Unknown key: '' @ k)))"
    unfolding py_in_def message.simps by (rule sublist_append_leftI)
  have "\<exists>e. convert_weights hf path = Inl e"
    using assms(1) w by (rule convert_weights_fails)
  moreover have "convert_weights hf path = Inl (ValueError (''Unknown key: '' @ k))"
    if "hf = pre @ (k, v) # post"
      and "\<forall>(k', v') \<in> set pre. \<exists>ws. step_write hf k' v' = Inr ws" for pre post
    using that w by (rule convert_weights_first_failure)
  ultimately show ?thesis using m by blast
qed

theorem unknown_key_aborts_witness:
  "convert_weights
     [(''lm_head.weight'', Tensor [1] [0::nat]),
      (''encoder.block.0.layer.0.SelfAttention.unexpected.weight'', Tensor [1] [0])]
     ''out.pt''
     = Inl (ValueError ''Unknown key: encoder.block.0.layer.0.SelfAttention.unexpected.weight'') \<and>
   py_in ''encoder.block.0.layer.0.SelfAttention.unexpected.weight''
     (message
        (ValueError ''Unknown key: encoder.block.0.layer.0.SelfAttention.unexpected.weight''))"
proof -
  let ?k = "''encoder.block.0.layer.0.SelfAttention.unexpected.weight''"
  let ?pre = "[(''lm_head.weight'', Tensor [1] [0::nat])]"
  let ?hf = "?pre @ (?k, Tensor [1] [0::nat]) # []"
  have 1: "(?k, Tensor [1] [0::nat]) \<in> set ?hf" by simp
  have 2: "rule_of ?k = No_rule" by code_simp
  have "step_write ?hf ''lm_head.weight'' (Tensor [1] [0::nat])
        = Inr [(''enc_dec_model.tokens_head.weight'', Tensor [1] [0])]"
    by code_simp
  then have 3: "\<forall>(k', v') \<in> set ?pre. \<exists>ws. step_write ?hf k' v' = Inr ws"
    by simp
  note w = unknown_key_aborts [OF 1 2, of "''out.pt''", THEN conjunct2, rule_format,
      of ?pre "[]"]
  from w 3 show ?thesis by simp
qed

subsection \<open>Order of enumeration\<close>

lemma step_depends_on_map:
  assumes "map_of hf1 = map_of hf2"
  shows "convert_weights_step hf1 k v st = convert_weights_step hf2 k v st"
  unfolding convert_weights_step_def getitem_def assms ..

lemma step_write_depends_on_map:
  "map_of hf1 = map_of hf2 \<Longrightarrow> step_write hf1 k v = step_write hf2 k v"
  unfolding step_write_def by (simp add: step_depends_on_map [of hf1 hf2])

lemma writes_of_depends_on_map:
  "map_of hf1 = map_of hf2 \<Longrightarrow> writes_of hf1 items = writes_of hf2 items"
  unfolding writes_of_def by (simp add: step_write_depends_on_map [of hf1 hf2])

lemma mset_concat_map:
  assumes "mset xs = mset ys"
  shows "mset (concat (map f xs)) = mset (concat (map f ys))"
proof -
  have "mset (concat (map f zs)) = sum_mset (image_mset (\<lambda>z. mset (f z)) (mset zs))" for zs
    by (induction zs) simp_all
  with assms show ?thesis by simp
qed

lemma writes_of_permuted:
  "mset items1 = mset items2 \<Longrightarrow> mset (writes_of hf items1) = mset (writes_of hf items2)"
  unfolding writes_of_def by (rule mset_concat_map)

text \<open>
  C8, as stated, fails: the sub-layer index of a key does not enter its target name, so two
  keys that differ in it only are assigned to the same target and the later one wins.
\<close>

theorem order_independence_counterexample:
  "map_of [(''encoder.block.0.layer.0.DenseReluDense.wo.weight'', Tensor [1] [1::nat]),
      (''encoder.block.0.layer.1.DenseReluDense.wo.weight'', Tensor [1] [2])] =
   map_of [(''encoder.block.0.layer.1.DenseReluDense.wo.weight'', Tensor [1] [2]),
      (''encoder.block.0.layer.0.DenseReluDense.wo.weight'', Tensor [1] [1::nat])] \<and>
   convert_weights [(''encoder.block.0.layer.0.DenseReluDense.wo.weight'', Tensor [1] [1::nat]),
      (''encoder.block.0.layer.1.DenseReluDense.wo.weight'', Tensor [1] [2])] ''out.pt'' =
     Inr \<lparr>nemo_weights = [(''enc_dec_model.enc_dec_model.encoder.model.layers.0.mlp.dense_4h_to_h.weight'', Tensor [1] [2])],
          stdout = [''Found 2 keys in the checkpoint'',
            ''Mapped encoder.block.0.layer.0.DenseReluDense.wo.weight to enc_dec_model.enc_dec_model.encoder.model.layers.0.mlp.dense_4h_to_h.weight'',
            ''Mapped encoder.block.0.layer.1.DenseReluDense.wo.weight to enc_dec_model.enc_dec_model.encoder.model.layers.0.mlp.dense_4h_to_h.weight'',
            ''Saved weights to out.pt'']\<rparr> \<and>
   convert_weights [(''encoder.block.0.layer.1.DenseReluDense.wo.weight'', Tensor [1] [2]),
      (''encoder.block.0.layer.0.DenseReluDense.wo.weight'', Tensor [1] [1::nat])] ''out.pt'' =
     Inr \<lparr>nemo_weights = [(''enc_dec_model.enc_dec_model.encoder.model.layers.0.mlp.dense_4h_to_h.weight'', Tensor [1] [1])],
          stdout = [''Found 2 keys in the checkpoint'',
            ''Mapped encoder.block.0.layer.1.DenseReluDense.wo.weight to enc_dec_model.enc_dec_model.encoder.model.layers.0.mlp.dense_4h_to_h.weight'',
            ''Mapped encoder.block.0.layer.0.DenseReluDense.wo.weight to enc_dec_model.enc_dec_model.encoder.model.layers.0.mlp.dense_4h_to_h.weight'',
            ''Saved weights to out.pt'']\<rparr> \<and>
   map_of [(''enc_dec_model.enc_dec_model.encoder.model.layers.0.mlp.dense_4h_to_h.weight'', Tensor [1] [2::nat])] \<noteq>
   map_of [(''enc_dec_model.enc_dec_model.encoder.model.layers.0.mlp.dense_4h_to_h.weight'', Tensor [1] [1::nat])]"
proof (intro conjI)
  show "map_of [(''encoder.block.0.layer.0.DenseReluDense.wo.weight'', Tensor [1] [1::nat]),
      (''encoder.block.0.layer.1.DenseReluDense.wo.weight'', Tensor [1] [2])] =
   map_of [(''encoder.block.0.layer.1.DenseReluDense.wo.weight'', Tensor [1] [2]),
      (''encoder.block.0.layer.0.DenseReluDense.wo.weight'', Tensor [1] [1::nat])]"
    by (rule map_of_inject_set [THEN iffD2]) auto
  show "convert_weights [(''encoder.block.0.layer.0.DenseReluDense.wo.weight'', Tensor [1] [1::nat]),
      (''encoder.block.0.layer.1.DenseReluDense.wo.weight'', Tensor [1] [2])] ''out.pt'' =
     Inr \<lparr>nemo_weights = [(''enc_dec_model.enc_dec_model.encoder.model.layers.0.mlp.dense_4h_to_h.weight'', Tensor [1] [2])],
          stdout = [''Found 2 keys in the checkpoint'',
            ''Mapped encoder.block.0.layer.0.DenseReluDense.wo.weight to enc_dec_model.enc_dec_model.encoder.model.layers.0.mlp.dense_4h_to_h.weight'',
            ''Mapped encoder.block.0.layer.1.DenseReluDense.wo.weight to enc_dec_model.enc_dec_model.encoder.model.layers.0.mlp.dense_4h_to_h.weight'',
            ''Saved weights to out.pt'']\<rparr>"
    by code_simp
  show "convert_weights [(''encoder.block.0.layer.1.DenseReluDense.wo.weight'', Tensor [1] [2]),
      (''encoder.block.0.layer.0.DenseReluDense.wo.weight'', Tensor [1] [1::nat])] ''out.pt'' =
     Inr \<lparr>nemo_weights = [(''enc_dec_model.enc_dec_model.encoder.model.layers.0.mlp.dense_4h_to_h.weight'', Tensor [1] [1])],
          stdout = [''Found 2 keys in the checkpoint'',
            ''Mapped encoder.block.0.layer.1.DenseReluDense.wo.weight to enc_dec_model.enc_dec_model.encoder.model.layers.0.mlp.dense_4h_to_h.weight'',
            ''Mapped encoder.block.0.layer.0.DenseReluDense.wo.weight to enc_dec_model.enc_dec_model.encoder.model.layers.0.mlp.dense_4h_to_h.weight'',
            ''Saved weights to out.pt'']\<rparr>"
    by code_simp
  show "map_of [(''enc_dec_model.enc_dec_model.encoder.model.layers.0.mlp.dense_4h_to_h.weight'', Tensor [1] [2::nat])] \<noteq>
   map_of [(''enc_dec_model.enc_dec_model.encoder.model.layers.0.mlp.dense_4h_to_h.weight'', Tensor [1] [1::nat])]"
  proof
    assume "map_of [(''enc_dec_model.enc_dec_model.encoder.model.layers.0.mlp.dense_4h_to_h.weight'', Tensor [1] [2::nat])] =
      map_of [(''enc_dec_model.enc_dec_model.encoder.model.layers.0.mlp.dense_4h_to_h.weight'', Tensor [1] [1::nat])]"
    then have "map_of [(''enc_dec_model.enc_dec_model.encoder.model.layers.0.mlp.dense_4h_to_h.weight'', Tensor [1] [2::nat])] ''enc_dec_model.enc_dec_model.encoder.model.layers.0.mlp.dense_4h_to_h.weight'' =
      map_of [(''enc_dec_model.enc_dec_model.encoder.model.layers.0.mlp.dense_4h_to_h.weight'', Tensor [1] [1::nat])] ''enc_dec_model.enc_dec_model.encoder.model.layers.0.mlp.dense_4h_to_h.weight''"
      by (rule arg_cong [where f = "\<lambda>m. m _"])
    then show False by simp
  qed
qed

text \<open>
  C8, amended. For two enumerations of the same key-tensor pairs in which no target is
  assigned twice during the pass, the two runs either both raise or both return, and then
  their target mappings are equal as functions from key to tensor.
\<close>

theorem order_independent_without_collisions:
  assumes "distinct (map fst hf1)" and "distinct (map fst hf2)"
    and "map_of hf1 = map_of hf2" and "collision_free hf1"
  shows "(\<exists>e1 e2. convert_weights hf1 path = Inl e1 \<and> convert_weights hf2 path = Inl e2) \<or>
         (\<exists>out1 out2. convert_weights hf1 path = Inr out1 \<and> convert_weights hf2 path = Inr out2 \<and>
            map_of (nemo_weights out1) = map_of (nemo_weights out2))"
proof -
  from assms(1-3) have s: "set hf1 = set hf2"
    by (simp add: map_of_inject_set)
  from assms(1,2) have "distinct hf1" "distinct hf2"
    by (simp_all add: distinct_map)
  with s have m: "mset hf1 = mset hf2"
    by (simp add: set_eq_iff_mset_eq_distinct)
  have sw: "step_write hf1 k v = step_write hf2 k v" for k v
    using assms(3) by (rule step_write_depends_on_map)
  let ?W1 = "pass_writes hf1" and ?W2 = "pass_writes hf2"
  have "writes_of hf1 hf1 = writes_of hf2 hf1"
    using assms(3) by (rule writes_of_depends_on_map)
  moreover have "mset (writes_of hf2 hf1) = mset (writes_of hf2 hf2)"
    using m by (rule writes_of_permuted)
  ultimately have mW: "mset ?W1 = mset ?W2"
    by (simp only: pass_writes_def)
  then have sW: "set ?W1 = set ?W2"
    by (rule mset_eq_setD)
  from mW have "image_mset fst (mset ?W1) = image_mset fst (mset ?W2)"
    by (rule arg_cong)
  then have mk: "mset (map fst ?W1) = mset (map fst ?W2)"
    by (simp only: mset_map)
  from assms(4) have d1: "distinct (map fst ?W1)"
    by (simp add: collision_free_def)
  with mset_eq_imp_distinct_iff [OF mk] have d2: "distinct (map fst ?W2)"
    by blast
  from sW have maps: "map_of ?W1 = map_of ?W2"
    by (rule map_of_inject_set [OF d1 d2, THEN iffD2])
  show ?thesis
  proof (cases "\<forall>(k, v) \<in> set hf1. \<exists>ws. step_write hf1 k v = Inr ws")
    case True
    then have "\<forall>(k, v) \<in> set hf2. \<exists>ws. step_write hf2 k v = Inr ws"
      using s sw by simp
    from convert_weights_succeeds [OF True, of path]
      convert_weights_succeeds [OF this, of path]
    obtain out1 out2 where o: "convert_weights hf1 path = Inr out1"
      "convert_weights hf2 path = Inr out2" by blast
    from convert_weights_Inr [OF o(1)] convert_weights_Inr [OF o(2)]
    have "map_of (nemo_weights out1) = map_of ?W1" "map_of (nemo_weights out2) = map_of ?W2"
      using d1 d2 by (simp_all add: map_of_fold_update)
    with maps have "map_of (nemo_weights out1) = map_of (nemo_weights out2)" by simp
    with o show ?thesis by blast
  next
    case False
    then obtain k v where kv: "(k, v) \<in> set hf1" "\<nexists>ws. step_write hf1 k v = Inr ws"
      by auto
    then obtain e where "step_write hf1 k v = Inl e"
      by (cases "step_write hf1 k v") auto
    with kv have f: "(k, v) \<in> set hf1" "step_write hf1 k v = Inl e" by simp_all
    from f s sw have f2: "(k, v) \<in> set hf2" "step_write hf2 k v = Inl e" by simp_all
    from convert_weights_fails [OF f, of path] convert_weights_fails [OF f2, of path]
    show ?thesis by blast
  qed
qed

theorem order_independent_without_collisions_witness:
  "\<exists>out1 out2.
     convert_weights
       [(''lm_head.weight'', Tensor [1] [1::nat]),
        (''decoder.embed_tokens.weight'', Tensor [1] [2])] ''out.pt'' = Inr out1 \<and>
     convert_weights
       [(''decoder.embed_tokens.weight'', Tensor [1] [2]),
        (''lm_head.weight'', Tensor [1] [1::nat])] ''out.pt'' = Inr out2 \<and>
     map_of (nemo_weights out1) = map_of (nemo_weights out2)"
proof -
  let ?A = "[(''lm_head.weight'', Tensor [1] [1::nat]),
        (''decoder.embed_tokens.weight'', Tensor [1] [2])]"
  let ?B = "[(''decoder.embed_tokens.weight'', Tensor [1] [2]),
        (''lm_head.weight'', Tensor [1] [1::nat])]"
  have d: "distinct (map fst ?A)" "distinct (map fst ?B)" by simp_all
  have m: "map_of ?A = map_of ?B"
    by (rule map_of_inject_set [THEN iffD2]) auto
  have c: "collision_free ?A" by code_simp
  have r: "convert_weights ?A ''out.pt'' =
     Inr \<lparr>nemo_weights =
          [(''enc_dec_model.tokens_head.weight'', Tensor [1] [1]),
           (''enc_dec_model.decoder_embedding.word_embeddings.weight'', Tensor [1] [2])],
        stdout =
          [''Found 2 keys in the checkpoint'',
           ''Mapped lm_head.weight to enc_dec_model.decoder_embedding.word_embeddings.weight and enc_dec_model.tokens_head.weight'',
           ''Saved weights to out.pt'']\<rparr>"
    by code_simp
  from order_independent_without_collisions [OF d m c, of "''out.pt''"] r
  show ?thesis by simp
qed

subsection \<open>The target keys of a checkpoint of the scheme\<close>

lemma writes_of_scheme:
  assumes "\<forall>(d, t) \<in> set its. in_scheme d \<and> fusable hf d t"
  shows "fst ` set (writes_of hf (map (\<lambda>(d, t). (key_name d, t)) its)) =
           {tg. \<exists>(d, t) \<in> set its. target_name d = Some tg}"
  using assms
proof (induction its)
  case Nil
  then show ?case by (simp add: writes_of_def)
next
  case (Cons p its)
  obtain d t where p: "p = (d, t)" by (cases p)
  with Cons.prems have "in_scheme d" "fusable hf d t" by simp_all
  from step_write_scheme [OF this] obtain x where
    "step_write hf (key_name d) t =
       Inr (case target_name d of None \<Rightarrow> [] | Some tg \<Rightarrow> [(tg, x)])" by blast
  then have 1: "fst ` set (case step_write hf (key_name d) t of Inl e \<Rightarrow> [] | Inr ws \<Rightarrow> ws)
      = {tg. target_name d = Some tg}"
    by (auto split: option.splits)
  from Cons.prems have "\<forall>(d, t) \<in> set its. in_scheme d \<and> fusable hf d t" by simp
  note 2 = Cons.IH [OF this]
  have "fst ` set (writes_of hf (map (\<lambda>(d, t). (key_name d, t)) (p # its))) =
      fst ` set (case step_write hf (key_name d) t of Inl e \<Rightarrow> [] | Inr ws \<Rightarrow> ws) \<union>
      fst ` set (writes_of hf (map (\<lambda>(d, t). (key_name d, t)) its))"
    by (simp add: p writes_of_Cons image_Un)
  also have "\<dots> = {tg. target_name d = Some tg} \<union>
      {tg. \<exists>(d, t) \<in> set its. target_name d = Some tg}"
    unfolding 1 2 ..
  also have "\<dots> = {tg. \<exists>(d, t) \<in> set (p # its). target_name d = Some tg}"
    unfolding p by auto
  finally show ?case .
qed

text \<open>
  C2. Take a checkpoint whose keys are all keys of the naming scheme (the shared and
  embedding tables, the output head, the relative position bias at block 0, attention
  projections, feed-forward weights and normalizations), in which every fusion trigger has
  its siblings with tensors of its own shape. Then \<open>convert_weights\<close> returns, and the
  keys of the target mapping are exactly the expected target names of the source keys: none
  is missing, there is no other, and none occurs twice.
\<close>

theorem scheme_checkpoint_target_keys:
  assumes "\<forall>(d, t) \<in> set items. in_scheme d \<and> fusable hf d t"
    and "hf = map (\<lambda>(d, t). (key_name d, t)) items"
  shows "\<exists>out. convert_weights hf path = Inr out \<and>
           fst ` set (nemo_weights out) =
             {tg. \<exists>(d, t) \<in> set items. target_name d = Some tg} \<and>
           distinct (map fst (nemo_weights out))"
proof -
  have "\<exists>ws. step_write hf k v = Inr ws" if "(k, v) \<in> set hf" for k v
  proof -
    from that assms(2) obtain d where "(d, v) \<in> set items" "k = key_name d" by auto
    with assms(1) step_write_scheme [of d hf v] show ?thesis by blast
  qed
  then have "\<forall>(k, v) \<in> set hf. \<exists>ws. step_write hf k v = Inr ws" by blast
  from convert_weights_succeeds [OF this, of path] obtain out where
    out: "convert_weights hf path = Inr out" by blast
  from convert_weights_Inr [OF out]
  have w: "nemo_weights out = fold (case_prod AList.update) (pass_writes hf) []" by blast
  have "fst ` set (nemo_weights out) = fst ` set (pass_writes hf)"
    unfolding w keys_fold_update by simp
  also have "\<dots> = {tg. \<exists>(d, t) \<in> set items. target_name d = Some tg}"
    unfolding pass_writes_def
    using writes_of_scheme [OF assms(1)] assms(2) by simp
  finally have keys: "fst ` set (nemo_weights out) =
      {tg. \<exists>(d, t) \<in> set items. target_name d = Some tg}" .
  have "distinct (map fst (nemo_weights out))"
    unfolding w by (rule distinct_fold_update) simp
  with out keys show ?thesis by blast
qed

theorem scheme_checkpoint_target_keys_witness:
  "\<exists>out. convert_weights
       [(''shared.weight'', Tensor [2, 1] [7, 7::nat]),
        (''lm_head.weight'', Tensor [2, 1] [8, 8]),
        (''encoder.block.0.layer.0.SelfAttention.q.weight'', Tensor [1, 1] [1]),
        (''encoder.block.0.layer.0.SelfAttention.k.weight'', Tensor [1, 1] [2]),
        (''encoder.block.0.layer.0.SelfAttention.v.weight'', Tensor [1, 1] [3]),
        (''decoder.block.0.layer.2.layer_norm.weight'', Tensor [1] [4]),
        (''decoder.final_layer_norm.weight'', Tensor [1] [5])]
       ''out.pt'' = Inr out \<and>
     fst ` set (nemo_weights out) =
       {''enc_dec_model.tokens_head.weight'',
        ''enc_dec_model.enc_dec_model.encoder.model.layers.0.self_attention.query_key_value.weight'',
        ''enc_dec_model.enc_dec_model.decoder.model.layers.0.post_inter_attention_layernorm.weight'',
        ''enc_dec_model.enc_dec_model.decoder.model.final_layernorm.weight''} \<and>
     distinct (map fst (nemo_weights out))"
proof -
  let ?items = "[(Shared, Tensor [2, 1] [7, 7::nat]),
        (LmHead, Tensor [2, 1] [8, 8]),
        (Block Encoder 0 0 SelfQ, Tensor [1, 1] [1]),
        (Block Encoder 0 0 SelfK, Tensor [1, 1] [2]),
        (Block Encoder 0 0 SelfV, Tensor [1, 1] [3]),
        (Block Decoder 0 2 Norm, Tensor [1] [4]),
        (FinalNorm Decoder, Tensor [1] [5])]"
  let ?hf = "[(''shared.weight'', Tensor [2, 1] [7, 7::nat]),
        (''lm_head.weight'', Tensor [2, 1] [8, 8]),
        (''encoder.block.0.layer.0.SelfAttention.q.weight'', Tensor [1, 1] [1]),
        (''encoder.block.0.layer.0.SelfAttention.k.weight'', Tensor [1, 1] [2]),
        (''encoder.block.0.layer.0.SelfAttention.v.weight'', Tensor [1, 1] [3]),
        (''decoder.block.0.layer.2.layer_norm.weight'', Tensor [1] [4]),
        (''decoder.final_layer_norm.weight'', Tensor [1] [5])]"
  have h: "?hf = map (\<lambda>(d, t). (key_name d, t)) ?items"
    by code_simp
  have a: "\<forall>(d, t) \<in> set ?items. in_scheme d \<and> fusable ?hf d t"
    by code_simp
  have tg: "{tg. \<exists>(d, t) \<in> set ?items. target_name d = Some tg} =
       {''enc_dec_model.tokens_head.weight'',
        ''enc_dec_model.enc_dec_model.encoder.model.layers.0.self_attention.query_key_value.weight'',
        ''enc_dec_model.enc_dec_model.decoder.model.layers.0.post_inter_attention_layernorm.weight'',
        ''enc_dec_model.enc_dec_model.decoder.model.final_layernorm.weight''}"
    by (auto simp: layer_key_def py_str_def dec_nat_0 final_key_def)
  from scheme_checkpoint_target_keys [OF a h, of "''out.pt''"]
  show ?thesis unfolding tg .
qed

end
